theory Spec2Isabelle
  imports Complex_Main "HOL-Library.Char_ord" "HOL-Library.List_Lexorder"
    "HOL-Library.Product_Lexorder" "HOL-Library.Multiset"
begin

section \<open>Data model\<close>

text \<open>
  The Python exceptions the scripts can raise, as values. A \<open>ValueError\<close> and an
  \<open>AssertionError\<close> carry the message of the raise site, a \<open>KeyError\<close> the
  name of the missing column.
\<close>

datatype error =
    ValueError string
  | KeyError string
  | TypeError
  | IndexError
  | AssertionError string
  | UnboundLocalError string

text \<open>
  One row of the order table. Every column the scripts read or write has a cell of the
  column's type; which columns the data frame really has is recorded in the table
  (\<open>cols\<close>), and the cell of an absent column is never read. \<open>customer_type\<close> and
  \<open>launch_type\<close> can be missing (NaN), hence the option; the key columns and the
  quantity are never missing once the table is grouped. Strings are ASCII, integers are
  unbounded (the sums and year-weeks of the data are far from the 64-bit limits).
\<close>

record row =
  release :: string
  brand :: string
  planned_delivery_yearweek :: int
  creation_yearweek :: int
  customer :: string
  customer_sold_to :: string
  division :: string
  dedalo_area :: string
  acquisition_mode_group :: string
  qty :: int
  customer_type :: "string option"
  launch_type :: "string option"
  first_order :: bool
  new_acquisition_mode :: string
  common_creation_yearweek :: int
  common_planned_delivery_yearweek :: int
  till_today :: string
  comp :: string
  comp_today :: string
  outlier :: bool
  comp_no_out :: string
  comp_today_no_out :: string

text \<open>A row whose cells are all empty, from which rows are built.\<close>

definition blank_row :: row where
  "blank_row = \<lparr>release = [], brand = [], planned_delivery_yearweek = 0, creation_yearweek = 0,
     customer = [], customer_sold_to = [], division = [], dedalo_area = [],
     acquisition_mode_group = [], qty = 0, customer_type = None, launch_type = None,
     first_order = False, new_acquisition_mode = [], common_creation_yearweek = 0,
     common_planned_delivery_yearweek = 0, till_today = [], comp = [], comp_today = [],
     outlier = False, comp_no_out = [], comp_today_no_out = []\<rparr>"

record table =
  cols :: "string list"
  rows :: "row list"

text \<open>\<open>df[c] = ...\<close> appends the column when it is new and overwrites it in place otherwise.\<close>

definition add_col :: "string \<Rightarrow> string list \<Rightarrow> string list" where
  "add_col c cs = (if c \<in> set cs then cs else cs @ [c])"

text \<open>\<open>df.drop(names, axis=1)\<close>, used by the scripts on columns they have just created.\<close>

definition drop_cols :: "string list \<Rightarrow> string list \<Rightarrow> string list" where
  "drop_cols names cs = filter (\<lambda>c. c \<notin> set names) cs"

text \<open>The columns of \<open>names\<close> the table lacks, in the order the code reads them.\<close>

definition missing :: "string list \<Rightarrow> table \<Rightarrow> string list" where
  "missing names df = filter (\<lambda>c. c \<notin> set (cols df)) names"

definition yn :: "bool \<Rightarrow> string" where
  "yn b = (if b then ''Y'' else ''N'')"

section \<open>C\_shaping.py: comparability\<close>

text \<open>
  \<open>df.groupby(key)['release'].nunique()\<close>: one entry per distinct key, holding the number
  of distinct releases among the rows with that key.
\<close>

definition nunique_release :: "(row \<Rightarrow> string) \<Rightarrow> row list \<Rightarrow> (string \<times> nat) list" where
  "nunique_release key rs =
     map (\<lambda>g. (g, length (remdups (map release (filter (\<lambda>r. key r = g) rs)))))
         (remdups (map key rs))"

text \<open>\<open>groups_in_both_releases[groups_in_both_releases == 2].index\<close>\<close>

definition groups_in_both_releases :: "(row \<Rightarrow> string) \<Rightarrow> row list \<Rightarrow> string list" where
  "groups_in_both_releases key rs =
     map fst (filter (\<lambda>gn. snd gn = 2) (nunique_release key rs))"

definition group_id :: "row \<Rightarrow> string" where
  "group_id r =
     brand r @ ''-'' @ customer r @ ''-'' @ dedalo_area r @ ''-'' @ new_acquisition_mode r"

definition create_comp :: "table \<Rightarrow> error + table" where
  "create_comp df =
     (case missing [''brand'', ''customer'', ''dedalo_area'', ''new_acquisition_mode'',
                    ''release''] df of
        c # _ \<Rightarrow> Inl (KeyError c)
      | [] \<Rightarrow>
          Inr \<lparr>cols = drop_cols [''group_id''] (add_col ''comp'' (add_col ''group_id'' (cols df))),
               rows = map (\<lambda>r. r\<lparr>comp :=
                             yn (group_id r \<in> set (groups_in_both_releases group_id (rows df)))\<rparr>)
                          (rows df)\<rparr>)"

section \<open>C\_shaping.py: first orders\<close>

text \<open>Running a list of steps that can each raise: the first exception wins.\<close>

fun sequence :: "('e + 'a) list \<Rightarrow> 'e + 'a list" where
  "sequence [] = Inr []"
| "sequence (x # xs) =
     (case x of
        Inl e \<Rightarrow> Inl e
      | Inr v \<Rightarrow> (case sequence xs of Inl e \<Rightarrow> Inl e | Inr vs \<Rightarrow> Inr (v # vs)))"

text \<open>
  Calendar dates are proleptic Gregorian ordinals (\<open>date.toordinal()\<close>): day 1 is
  0001-01-01, a Monday, and \<open>weekday()\<close> counts from Monday = 0.
\<close>

definition days_before_year :: "int \<Rightarrow> int" where
  "days_before_year y = (y - 1) * 365 + (y - 1) div 4 - (y - 1) div 100 + (y - 1) div 400"

definition jan1_ordinal :: "int \<Rightarrow> int" where
  "jan1_ordinal y = days_before_year y + 1"

definition weekday :: "int \<Rightarrow> int" where
  "weekday n = (n + 6) mod 7"

text \<open>
  The day of the year of a (week, weekday) pair under \<open>%W\<close> (weeks start on Monday, the
  days before the first Monday are week 0), as \<open>strptime\<close> computes it.
\<close>

definition calc_julian_from_W :: "int \<Rightarrow> int \<Rightarrow> int \<Rightarrow> int" where
  "calc_julian_from_W year week_of_year day_of_week =
     (let first_weekday = weekday (jan1_ordinal year);
          week_0_length = (7 - first_weekday) mod 7
      in if week_of_year = 0 then 1 + day_of_week - first_weekday
         else 1 + (week_0_length + 7 * (week_of_year - 1)) + day_of_week)"

text \<open>
  \<open>str(creation_yearweek) + '0'\<close> read with the format \<open>%Y%W%w\<close>: four digits of year,
  a week 00..53 (one digit when only one is left before the weekday) and the weekday
  digit 0. A six-digit number is year and two-digit week, a five-digit number is year
  and one-digit week; every other number does not match the format.
\<close>

definition parse_yearweek :: "int \<Rightarrow> error + (int \<times> int)" where
  "parse_yearweek yw =
     (if 100000 \<le> yw \<and> yw \<le> 999999 then
        (if yw mod 100 \<le> 53 then Inr (yw div 100, yw mod 100)
         else Inl (ValueError ''time data does not match format %Y%W%w''))
      else if 10000 \<le> yw \<and> yw \<le> 99999 then Inr (yw div 10, yw mod 10)
      else Inl (ValueError ''time data does not match format %Y%W%w''))"

text \<open>
  \<open>pd.to_datetime(..., format='%Y%W%w')\<close> on one cell: the Sunday (\<open>%w\<close> = 0, weekday 6)
  of the week. A nanosecond timestamp holds the days 1677-09-22 to 2262-04-11 only.
\<close>

definition to_datetime :: "int \<Rightarrow> error + int" where
  "to_datetime yw =
     (case parse_yearweek yw of
        Inl e \<Rightarrow> Inl e
      | Inr (year, week) \<Rightarrow>
          (let julian = calc_julian_from_W year week 6;
               ordinal = (julian - 1) + jan1_ordinal year
           in if 612412 \<le> ordinal \<and> ordinal \<le> 825914 then Inr ordinal
              else Inl (ValueError ''Out of bounds nanosecond timestamp'')))"

definition first_order_key :: "row \<Rightarrow> string \<times> string \<times> string \<times> string" where
  "first_order_key r = (release r, brand r, customer r, dedalo_area r)"

text \<open>\<open>np.select(conditions, outcomes, default)\<close>: the first condition that holds decides.\<close>

definition select_acquisition_mode :: "bool \<Rightarrow> string \<Rightarrow> string" where
  "select_acquisition_mode fo amg =
     (if fo \<and> amg = ''REP'' then ''REP FIRST ORDER''
      else if amg = ''RED CARPET'' then ''EVENT''
      else if \<not> fo \<and> amg = ''REP'' then ''REP REPLENISHMENT''
      else ''REPLENISHMENT'')"

text \<open>
  \<open>week_diff < week_inside_first\<close>, with \<open>week_diff\<close> the days between the two dates
  divided by 7. The parameter of \<open>label_first_order\<close> defaults to 2;
  \<open>create_comp_today\<close> passes its own default \<open>None\<close>, and a pandas comparison with
  \<open>None\<close> is false in every row.
\<close>

definition week_diff_lt :: "int \<Rightarrow> int \<Rightarrow> int option \<Rightarrow> bool" where
  "week_diff_lt dt first_dt week_inside_first =
     (case week_inside_first of None \<Rightarrow> False | Some w \<Rightarrow> dt - first_dt < 7 * w)"

definition label_first_order :: "table \<Rightarrow> int option \<Rightarrow> error + table" where
  "label_first_order df week_inside_first =
     (case missing [''creation_yearweek''] df of
        c # _ \<Rightarrow> Inl (KeyError c)
      | [] \<Rightarrow>
     (case sequence (map (\<lambda>r. to_datetime (creation_yearweek r)) (rows df)) of
        Inl e \<Rightarrow> Inl e
      | Inr dts \<Rightarrow>
     (case missing [''release'', ''brand'', ''customer'', ''dedalo_area'',
                    ''acquisition_mode_group''] df of
        c # _ \<Rightarrow> Inl (KeyError c)
      | [] \<Rightarrow>
          Inr \<lparr>cols = add_col ''new_acquisition_mode''
                   (drop_cols [''creation_yearweek_dt'', ''first_creation_yearweek_dt'', ''week_diff'']
                     (add_col ''first_order'' (add_col ''week_diff''
                       (add_col ''first_creation_yearweek_dt''
                         (add_col ''creation_yearweek_dt'' (cols df)))))),
               rows = map (\<lambda>(r, dt).
                        let first_dt = min_list (map snd
                              (filter (\<lambda>(r', dt'). first_order_key r' = first_order_key r)
                                      (zip (rows df) dts)));
                            fo = week_diff_lt dt first_dt week_inside_first
                        in r\<lparr>first_order := fo,
                             new_acquisition_mode :=
                               select_acquisition_mode fo (acquisition_mode_group r)\<rparr>)
                      (zip (rows df) dts)\<rparr>)))"

section \<open>C\_shaping.py: common year-week\<close>

text \<open>
  Python's \<open>int(s)\<close> on an ASCII string: blanks around, a sign, then decimal digits,
  where single underscores may stand between digits.
\<close>

definition is_space :: "char \<Rightarrow> bool" where
  "is_space c = (c \<in> set [CHR '' '', CHR 0x09, CHR 0x0A, CHR 0x0B, CHR 0x0C, CHR 0x0D])"

definition is_digit :: "char \<Rightarrow> bool" where
  "is_digit c = (c \<in> set ''0123456789'')"

definition strip :: "string \<Rightarrow> string" where
  "strip s = rev (dropWhile is_space (rev (dropWhile is_space s)))"

fun digits_ok :: "string \<Rightarrow> bool" where
  "digits_ok [] = False"
| "digits_ok [c] = is_digit c"
| "digits_ok (c # d # cs) =
     (is_digit c \<and> (if d = CHR ''_'' then digits_ok cs else digits_ok (d # cs)))"

definition digit_val :: "char \<Rightarrow> int" where
  "digit_val c = int (of_char c) - 48"

definition dec_val :: "string \<Rightarrow> int" where
  "dec_val s = foldl (\<lambda>a c. 10 * a + digit_val c) 0 (filter is_digit s)"

definition py_int :: "string \<Rightarrow> error + int" where
  "py_int s =
     (let t = strip s;
          (sgn, u) = (case t of
                        [] \<Rightarrow> (1, t)
                      | c # cs \<Rightarrow> if c = CHR ''-'' then (- 1, cs)
                                  else if c = CHR ''+'' then (1, cs) else (1, t))
      in if digits_ok u then Inr (sgn * dec_val u)
         else Inl (ValueError ''invalid literal for int() with base 10''))"

text \<open>\<open>row[:4]\<close> of the release.\<close>

definition year_release :: "row \<Rightarrow> string" where
  "year_release r = take 4 (release r)"

text \<open>
  \<open>create_common_creation_yearweek\<close>. The maximum is taken over the year strings (in
  the order of strings) before either side is converted to an integer; \<open>max\<close> of no
  rows raises.
\<close>

definition create_common_creation_yearweek :: "table \<Rightarrow> error + table" where
  "create_common_creation_yearweek df =
     (if ''common_creation_yearweek'' \<in> set (cols df) then Inr df
      else
     (case missing [''release''] df of
        c # _ \<Rightarrow> Inl (KeyError c)
      | [] \<Rightarrow>
     (case map year_release (rows df) of
        [] \<Rightarrow> Inl (ValueError ''max() arg is an empty sequence'')
      | y # ys \<Rightarrow>
     (case py_int (fold max ys y) of
        Inl e \<Rightarrow> Inl e
      | Inr max_year \<Rightarrow>
     (case sequence (map (\<lambda>r. py_int (year_release r)) (rows df)) of
        Inl e \<Rightarrow> Inl e
      | Inr years \<Rightarrow>
     (case missing [''creation_yearweek'', ''planned_delivery_yearweek''] df of
        c # _ \<Rightarrow> Inl (KeyError c)
      | [] \<Rightarrow>
          Inr \<lparr>cols = drop_cols [''year_release'', ''max_year'', ''diff'']
                   (add_col ''common_planned_delivery_yearweek''
                     (add_col ''common_creation_yearweek''
                       (add_col ''diff'' (add_col ''max_year''
                         (add_col ''year_release'' (cols df)))))),
               rows = map (\<lambda>(r, yr).
                        let diff = max_year - yr
                        in r\<lparr>common_creation_yearweek := creation_yearweek r + diff * 100,
                             common_planned_delivery_yearweek :=
                               planned_delivery_yearweek r + diff * 100\<rparr>)
                      (zip (rows df) years)\<rparr>))))))"

section \<open>C\_shaping.py: comparability as of today\<close>

text \<open>
  \<open>today_yw\<close> is \<open>int((date.today() - timedelta(days=7)).strftime('%Y%W'))\<close>, the one
  input the code reads from the clock.
\<close>

definition create_till_today :: "int \<Rightarrow> table \<Rightarrow> error + table" where
  "create_till_today today_yw df =
     (case create_common_creation_yearweek df of
        Inl e \<Rightarrow> Inl e
      | Inr df1 \<Rightarrow>
          Inr \<lparr>cols = add_col ''till_today'' (cols df1),
               rows = map (\<lambda>r. r\<lparr>till_today := yn (common_creation_yearweek r \<le> today_yw)\<rparr>)
                          (rows df1)\<rparr>)"

text \<open>A step of the lazy pattern \<open>if not c in df.columns: df = f(df)\<close>.\<close>

definition unless_col :: "string \<Rightarrow> (table \<Rightarrow> error + table) \<Rightarrow> table \<Rightarrow> error + table" where
  "unless_col c f df = (if c \<in> set (cols df) then Inr df else f df)"

definition and_then :: "'e + 'a \<Rightarrow> ('a \<Rightarrow> 'e + 'b) \<Rightarrow> 'e + 'b" where
  "and_then m f = (case m of Inl e \<Rightarrow> Inl e | Inr x \<Rightarrow> f x)"

definition group_id_today :: "row \<Rightarrow> string" where
  "group_id_today r = group_id r @ till_today r @ comp r"

definition create_comp_today :: "int \<Rightarrow> table \<Rightarrow> int option \<Rightarrow> error + table" where
  "create_comp_today today_yw df week_inside_first =
     and_then (if ''new_acquisition_mode'' \<notin> set (cols df) \<or> week_inside_first \<noteq> None
               then label_first_order df week_inside_first else Inr df) (\<lambda>df1.
     and_then (unless_col ''comp'' create_comp df1) (\<lambda>df2.
     and_then (unless_col ''till_today'' (create_till_today today_yw) df2) (\<lambda>df3.
       (case missing [''brand'', ''customer'', ''dedalo_area'', ''new_acquisition_mode'',
                      ''till_today'', ''comp'', ''release''] df3 of
          c # _ \<Rightarrow> Inl (KeyError c)
        | [] \<Rightarrow>
            Inr \<lparr>cols = drop_cols [''group_id'', ''comp_today_pre'']
                     (add_col ''comp_today'' (add_col ''comp_today_pre''
                       (add_col ''group_id'' (cols df3)))),
                 rows = map (\<lambda>r.
                          let comp_today_pre =
                                yn (group_id_today r
                                      \<in> set (groups_in_both_releases group_id_today (rows df3)))
                          in r\<lparr>comp_today :=
                                 (if till_today r = ''Y'' \<and> comp r = ''Y'' \<and> comp_today_pre = ''Y''
                                  then ''Y'' else ''N'')\<rparr>)
                        (rows df3)\<rparr>))))"

section \<open>C\_shaping.py: outliers\<close>

text \<open>
  \<open>Series.quantile(q)\<close> with linear interpolation between the two order statistics
  around position \<open>(n - 1) * q\<close>, in exact arithmetic. The empty list (never a group) has
  no quantile.
\<close>

definition quantile :: "int list \<Rightarrow> rat \<Rightarrow> rat" where
  "quantile xs q =
     (let s = sort xs;
          pos = of_nat (length xs - 1) * q;
          lo = nat \<lfloor>pos\<rfloor>;
          hi = min (lo + 1) (length xs - 1);
          frac = pos - of_int \<lfloor>pos\<rfloor>
      in if xs = [] then 0
         else of_int (s ! lo) + (of_int (s ! hi) - of_int (s ! lo)) * frac)"

definition detect_outliers_iqr :: "int list \<Rightarrow> bool list" where
  "detect_outliers_iqr qs =
     (let Q1 = quantile qs (1 / 4);
          Q3 = quantile qs (3 / 4);
          IQR = Q3 - Q1;
          lower_bound = max 2 (Q1 - (3 / 2) * IQR);
          upper_bound = Q3 + (3 / 2) * IQR
      in map (\<lambda>q. \<not> (lower_bound \<le> of_int q \<and> of_int q \<le> upper_bound)) qs)"

definition outlier_key :: "row \<Rightarrow> string \<times> string \<times> string" where
  "outlier_key r = (brand r, dedalo_area r, new_acquisition_mode r)"

text \<open>
  \<open>df.groupby([...]).apply(f).reset_index(drop=True)\<close>: the detector \<open>f\<close> sees the
  quantities of one peer group and returns one flag per row of the group; the result is
  the groups put together again. On a table without rows pandas calls \<open>f\<close> on nothing
  and returns the table as it is, without the new column. The order in which the rows
  come back is not used by any statement below.
\<close>

definition groupby_apply :: "(int list \<Rightarrow> error + bool list) \<Rightarrow> table \<Rightarrow> error + table" where
  "groupby_apply f df =
     (case missing [''brand'', ''dedalo_area'', ''new_acquisition_mode''] df of
        c # _ \<Rightarrow> Inl (KeyError c)
      | [] \<Rightarrow>
          if rows df = [] then Inr df
          else
     (case missing [''qty''] df of
        c # _ \<Rightarrow> Inl (KeyError c)
      | [] \<Rightarrow>
     (case sequence (map (\<lambda>g.
                let grp = filter (\<lambda>r. outlier_key r = g) (rows df)
                in (case f (map qty grp) of
                      Inl e \<Rightarrow> Inl e
                    | Inr flags \<Rightarrow>
                        if length flags = length grp
                        then Inr (map2 (\<lambda>r b. r\<lparr>outlier := b\<rparr>) grp flags)
                        else Inl (ValueError ''Length of values does not match length of index'')))
              (remdups (map outlier_key (rows df)))) of
        Inl e \<Rightarrow> Inl e
      | Inr groups \<Rightarrow> Inr \<lparr>cols = add_col ''outlier'' (cols df), rows = concat groups\<rparr>)))"

text \<open>
  The code computes the quartiles and the bounds in float64. Where every quantity of a
  group is below 2^40 in absolute value, each operation of that computation is exact (the
  quartiles are multiples of 1/4, the bounds multiples of 1/8, all below 2^43), so that the
  exact arithmetic of \<open>detect_outliers_iqr\<close> gives the flags of the code.
\<close>

definition float64_exact :: "int list \<Rightarrow> bool" where
  "float64_exact qs = list_all (\<lambda>q. \<bar>q\<bar> < 2 ^ 40) qs"

text \<open>
  \<open>detect_outlier\<close>. The methods mad, iso and svm compute in floating point or inside
  scikit-learn; they are the parameter \<open>ext\<close>, from the method tag and the quantities of
  a group to the flags, and so is the method iqr on a group with a quantity too large for
  exact float64 arithmetic. Any other tag leaves \<open>df_outliers\<close> unbound.
\<close>

definition detect_outlier ::
  "(string \<Rightarrow> int list \<Rightarrow> error + bool list) \<Rightarrow> table \<Rightarrow> string \<Rightarrow> error + table" where
  "detect_outlier ext df method =
     (if method = ''iqr''
      then groupby_apply (\<lambda>qs. if float64_exact qs then Inr (detect_outliers_iqr qs)
                                else ext ''iqr'' qs) df
      else if method = ''mad'' \<or> method = ''iso'' \<or> method = ''svm''
           then groupby_apply (ext method) df
      else Inl (UnboundLocalError ''df_outliers''))"

definition create_comp_no_outliers ::
  "(string \<Rightarrow> int list \<Rightarrow> error + bool list) \<Rightarrow> table \<Rightarrow> string \<Rightarrow> error + table" where
  "create_comp_no_outliers ext df method =
     and_then (unless_col ''comp'' create_comp df) (\<lambda>df1.
     and_then (unless_col ''outlier'' (\<lambda>d. detect_outlier ext d method) df1) (\<lambda>df2.
       (case missing [''outlier'', ''comp''] df2 of
          c # _ \<Rightarrow> Inl (KeyError c)
        | [] \<Rightarrow>
            Inr \<lparr>cols = add_col ''comp_no_out'' (cols df2),
                 rows = map (\<lambda>r. r\<lparr>comp_no_out :=
                               (if outlier r = False \<and> comp r = ''Y'' then ''Y'' else ''N'')\<rparr>)
                            (rows df2)\<rparr>)))"

text \<open>\<open>df['outlier'].astype(str)\<close>\<close>

definition bool_str :: "bool \<Rightarrow> string" where
  "bool_str b = (if b then ''True'' else ''False'')"

definition group_id_no_out :: "row \<Rightarrow> string" where
  "group_id_no_out r = group_id r @ bool_str (outlier r) @ comp_today r"

definition create_comp_today_no_outliers ::
  "int \<Rightarrow> (string \<Rightarrow> int list \<Rightarrow> error + bool list) \<Rightarrow> table \<Rightarrow> string \<Rightarrow> error + table" where
  "create_comp_today_no_outliers today_yw ext df method =
     and_then (unless_col ''comp_today'' (\<lambda>d. create_comp_today today_yw d None) df) (\<lambda>df1.
     and_then (unless_col ''outlier'' (\<lambda>d. detect_outlier ext d method) df1) (\<lambda>df2.
     and_then (unless_col ''comp_no_out'' (\<lambda>d. create_comp_no_outliers ext d ''iqr'') df2) (\<lambda>df3.
       (case missing [''brand'', ''customer'', ''dedalo_area'', ''new_acquisition_mode'',
                      ''outlier'', ''comp_today'', ''release''] df3 of
          c # _ \<Rightarrow> Inl (KeyError c)
        | [] \<Rightarrow>
            Inr \<lparr>cols = drop_cols [''group_id'', ''comp_today_no_out_pre'']
                     (add_col ''comp_today_no_out'' (add_col ''comp_today_no_out_pre''
                       (add_col ''group_id'' (cols df3)))),
                 rows = map (\<lambda>r.
                          let comp_today_no_out_pre =
                                yn (group_id_no_out r
                                      \<in> set (groups_in_both_releases group_id_no_out (rows df3)))
                          in r\<lparr>comp_today_no_out :=
                                 (if outlier r = False \<and> comp_today r = ''Y''
                                     \<and> comp_today_no_out_pre = ''Y''
                                  then ''Y'' else ''N'')\<rparr>)
                        (rows df3)\<rparr>))))"

section \<open>B\_cleaning.py\<close>

definition DICT_CUSTOMER_TYPE :: "(string \<times> string) list" where
  "DICT_CUSTOMER_TYPE = [(''BPF'', ''BP''), (''PF'', ''P'')]"

text \<open>\<open>Series.replace(DICT_CUSTOMER_TYPE)\<close> on one cell; a missing cell stays missing.\<close>

definition replace_value :: "string option \<Rightarrow> string option" where
  "replace_value cell =
     (case cell of
        None \<Rightarrow> None
      | Some v \<Rightarrow> Some (case map_of DICT_CUSTOMER_TYPE v of Some w \<Rightarrow> w | None \<Rightarrow> v))"

text \<open>
  \<open>Series.mode()\<close>: the most frequent values among the cells that are not missing,
  sorted; no value at all when every cell is missing.
\<close>

definition mode :: "string option list \<Rightarrow> string list" where
  "mode cells =
     (let vals = map the (filter (\<lambda>c. c \<noteq> None) cells);
          most = fold max (map (count_list vals) vals) 0
      in sort (remdups (filter (\<lambda>v. count_list vals v = most) vals)))"

text \<open>\<open>replacing_values\<close>; \<open>.iloc[0]\<close> of an empty mode raises.\<close>

definition replacing_values :: "table \<Rightarrow> error + table" where
  "replacing_values df =
     (case missing [''customer_type''] df of
        c # _ \<Rightarrow> Inl (KeyError c)
      | [] \<Rightarrow>
          (let replaced = map (\<lambda>r. r\<lparr>customer_type := replace_value (customer_type r)\<rparr>) (rows df)
           in case mode (map customer_type replaced) of
                [] \<Rightarrow> Inl IndexError
              | m # _ \<Rightarrow>
                  Inr (df\<lparr>rows := map (\<lambda>r. r\<lparr>customer_type :=
                                     (case customer_type r of None \<Rightarrow> Some m | Some v \<Rightarrow> Some v)\<rparr>)
                                   replaced\<rparr>)))"

definition columns_to_group :: "string list" where
  "columns_to_group = [''release'', ''brand'', ''planned_delivery_yearweek'', ''creation_yearweek'',
     ''customer'', ''customer_sold_to'', ''division'', ''dedalo_area'', ''acquisition_mode_group'']"

type_synonym group_key =
  "string \<times> string \<times> int \<times> int \<times> string \<times> string \<times> string \<times> string \<times> string"

definition grouping_key :: "row \<Rightarrow> group_key" where
  "grouping_key r = (release r, brand r, planned_delivery_yearweek r, creation_yearweek r,
     customer r, customer_sold_to r, division r, dedalo_area r, acquisition_mode_group r)"

definition row_of_key :: "group_key \<Rightarrow> row" where
  "row_of_key k =
     (case k of (rel, b, pdw, cw, c, cst, d, a, amg) \<Rightarrow>
        blank_row\<lparr>release := rel, brand := b, planned_delivery_yearweek := pdw,
                  creation_yearweek := cw, customer := c, customer_sold_to := cst,
                  division := d, dedalo_area := a, acquisition_mode_group := amg\<rparr>)"

text \<open>
  \<open>df.groupby(by=columns_to_group, as_index=False)[['qty']].sum()\<close>: one row per
  distinct key, in the order of the keys, holding the key columns and the summed
  quantity and no other column. (pandas leaves out the rows with a missing key; the key
  cells of the model are never missing.)
\<close>

definition grouping :: "table \<Rightarrow> error + table" where
  "grouping df =
     (case missing (columns_to_group @ [''qty'']) df of
        c # _ \<Rightarrow> Inl (KeyError c)
      | [] \<Rightarrow>
          Inr \<lparr>cols = columns_to_group @ [''qty''],
               rows = map (\<lambda>k. (row_of_key k)
                             \<lparr>qty := sum_list (map qty (filter (\<lambda>r. grouping_key r = k) (rows df)))\<rparr>)
                          (sort (remdups (map grouping_key (rows df))))\<rparr>)"

text \<open>
  \<open>df.merge(df_area, on=['dedalo_area'])\<close>, an inner join (the default of \<open>merge\<close>): a
  row comes back once for every row of the lookup with its area, and not at all when
  there is none. The lookup is a list of (dedalo\_area, launch\_type) pairs.
\<close>

definition merge_area :: "(string \<times> string option) list \<Rightarrow> row list \<Rightarrow> row list" where
  "merge_area df_area rs =
     concat (map (\<lambda>r. map (\<lambda>l. r\<lparr>launch_type := snd l\<rparr>)
                           (filter (\<lambda>l. fst l = dedalo_area r) df_area)) rs)"

text \<open>\<open>cleaning\<close>; the first argument is what \<open>import_area_group()\<close> returns or raises.\<close>

definition cleaning ::
  "(error + (string \<times> string option) list) \<Rightarrow> table \<Rightarrow> bool \<Rightarrow> error + table" where
  "cleaning import_area_group df adding_area =
     and_then (replacing_values df) (\<lambda>df1.
     and_then (grouping df1) (\<lambda>df2.
       if adding_area then
         and_then import_area_group (\<lambda>df_area.
           let lenght_df = length (rows df2);
               df3 = \<lparr>cols = add_col ''launch_type'' (cols df2),
                      rows = merge_area df_area (rows df2)\<rparr>
           in if length (rows df3) = lenght_df then Inr df3
              else Inl (AssertionError ''Number of rows is not correct, check the merge''))
       else Inr df2))"

section \<open>A\_import.py\<close>

text \<open>
  A file as pandas reads it, before any column is typed: the column labels (text, or a
  number when a header cell of a sheet holds one) and the body, which the import passes on.
\<close>

datatype label = Str string | Num int

record 'd frame =
  columns :: "label list"
  body :: 'd

datatype reader = Read_excel | Read_csv | Read_parquet

definition new_col_name :: "(string \<times> string) list" where
  "new_col_name =
     [(''SAP - Order Type'', ''order_type''),
      (''NPI_Release'', ''release''),
      (''Brand - code'', ''brand''),
      (''Calendar - Planned Delivery Date - Date'', ''planned_delivery_date''),
      (''Planned Delivery Date: Month'', ''planned_delivery_month''),
      (''Calendar - Order Date - Year Week'', ''creation_yearweek''),
      (''Calendar - Planned Delivery Date - Year Week'', ''planned_delivery_yearweek''),
      (''Customer Sold To Description act'', ''customer_sold_to''),
      (''Customer: Code'', ''customer''),
      (''SAP Optical/Sun/Clip On Desc'', ''division''),
      (''Orders - KeyAccountCode'', ''key_account_code''),
      (''Subsidiary Name'', ''datest_name''),
      (''Short Trip - Datest Code'', ''datest''),
      (''Short Trip - DEDALO Area'', ''dedalo_area''),
      (''Acquisition Mode Desc'', ''acquisition_mode_desc''),
      (''Acquisition Mode Group'', ''acquisition_mode_group''),
      (''Orders - Specification'', ''order_specification''),
      (''Customer Sales: GTM Rating'', ''customer_type''),
      (''No Return Frame - TOTAL Order Qty'', ''qty'')]"

text \<open>\<open>df.rename(columns=new_col_name)\<close> on one label.\<close>

definition rename_label :: "label \<Rightarrow> label" where
  "rename_label l =
     (case l of
        Str s \<Rightarrow> (case map_of new_col_name s of Some t \<Rightarrow> Str t | None \<Rightarrow> Str s)
      | Num n \<Rightarrow> Num n)"

fun is_Str :: "label \<Rightarrow> bool" where
  "is_Str (Str s) = True"
| "is_Str (Num n) = False"

fun str_of :: "label \<Rightarrow> string" where
  "str_of (Str s) = s"
| "str_of (Num n) = []"

fun num_of :: "label \<Rightarrow> int" where
  "num_of (Num n) = n"
| "num_of (Str s) = 0"

text \<open>\<open>sorted(labels)\<close>: text and numbers do not compare, which raises \<open>TypeError\<close>.\<close>

definition sorted_labels :: "label list \<Rightarrow> error + label list" where
  "sorted_labels ls =
     (if list_all is_Str ls then Inr (map Str (sort (map str_of ls)))
      else if list_all (\<lambda>l. \<not> is_Str l) ls then Inr (map Num (sort (map num_of ls)))
      else Inl TypeError)"

definition valid_extensions :: "string list" where
  "valid_extensions = [''.xlsx'', ''.csv'', ''.parquet'']"

text \<open>
  A path is the list of its parts; \<open>Path.suffix\<close> is the piece of the last part from
  its last dot on, when that dot is neither the first nor the last character.
\<close>

definition path_name :: "string list \<Rightarrow> string" where
  "path_name parts = (if parts = [] then [] else last parts)"

definition rfind_dot :: "string \<Rightarrow> int" where
  "rfind_dot name =
     (if CHR ''.'' \<in> set name
      then int (length name) - 1 - int (length (takeWhile (\<lambda>c. c \<noteq> CHR ''.'') (rev name)))
      else - 1)"

definition suffix :: "string list \<Rightarrow> string" where
  "suffix path =
     (let name = path_name path; i = rfind_dot name
      in if 0 < i \<and> i < int (length name) - 1 then drop (nat i) name else [])"

text \<open>
  \<open>import_one_file\<close>; \<open>rd\<close> stands for \<open>pd.read_excel\<close>, \<open>pd.read_csv\<close> and
  \<open>pd.read_parquet\<close> on the file system. The \<open>try\<close> block computes \<open>columns_match\<close>,
  the comparison of the two sorted lists, and drops the result; its handler runs only
  when sorting itself raises.
\<close>

definition columns_match :: "label list \<Rightarrow> error + bool" where
  "columns_match ls =
     and_then (sorted_labels ls) (\<lambda>a.
     and_then (sorted_labels (map (\<lambda>kv. Str (snd kv)) new_col_name)) (\<lambda>b.
       Inr (a = b)))"

definition import_one_file ::
  "(reader \<Rightarrow> string list \<Rightarrow> error + 'd frame) \<Rightarrow> string list \<Rightarrow> error + 'd frame" where
  "import_one_file rd path_to_file =
     (if suffix path_to_file \<in> set valid_extensions then
        and_then (if suffix path_to_file = ''.xlsx'' then rd Read_excel path_to_file
                  else if suffix path_to_file = ''.csv'' then rd Read_csv path_to_file
                  else rd Read_parquet path_to_file) (\<lambda>df0.
          let df = df0\<lparr>columns := map rename_label (columns df0)\<rparr>
          in (case columns_match (columns df) of
                Inl e \<Rightarrow> Inl (ValueError ''Columns do not match'')
              | Inr matches \<Rightarrow> Inr df))
      else Inl (ValueError ''Extension different from .xlsx, .csv, .parquet''))"

section \<open>D\_output.py\<close>

datatype writer = To_excel | To_parquet | To_csv

text \<open>
  The files written so far: for an output directory and a file name, the writer that
  wrote the file and the table it wrote.
\<close>

type_synonym 'd files = "string list \<times> string \<Rightarrow> (writer \<times> 'd) option"

text \<open>\<open>name.split(".")[-1]\<close>: what follows the last dot, or the whole name.\<close>

definition split_last :: "string \<Rightarrow> string" where
  "split_last name = rev (takeWhile (\<lambda>c. c \<noteq> CHR ''.'') (rev name))"

text \<open>
  \<open>save\<close> has three branches and no \<open>else\<close>. What the writers of pandas can raise on
  the file system is left out: a branch that writes returns the files with the new one.
\<close>

definition save :: "'d files \<Rightarrow> 'd \<Rightarrow> string list \<Rightarrow> string \<Rightarrow> error + 'd files" where
  "save fs df path_output name =
     (let format = split_last name
      in if format = ''xlsx'' then Inr (fs((path_output, name) \<mapsto> (To_excel, df)))
         else if format = ''parquet'' then Inr (fs((path_output, name) \<mapsto> (To_parquet, df)))
         else if format = ''csv'' then Inr (fs((path_output, name) \<mapsto> (To_csv, df)))
         else Inr fs)"

section \<open>Example tables\<close>

text \<open>An order line: release, brand, customer, area, acquisition mode group, week, quantity.\<close>

definition order_row ::
  "string \<Rightarrow> string \<Rightarrow> string \<Rightarrow> string \<Rightarrow> string \<Rightarrow> int \<Rightarrow> int \<Rightarrow> row" where
  "order_row rel b c a amg yw q =
     blank_row\<lparr>release := rel, brand := b, customer := c, dedalo_area := a,
               acquisition_mode_group := amg, creation_yearweek := yw,
               planned_delivery_yearweek := yw, qty := q\<rparr>"

text \<open>The columns of a table after \<open>grouping\<close>, and after \<open>label_first_order\<close>.\<close>

definition grouped_cols :: "string list" where
  "grouped_cols = [''release'', ''brand'', ''planned_delivery_yearweek'', ''creation_yearweek'',
     ''customer'', ''customer_sold_to'', ''division'', ''dedalo_area'', ''acquisition_mode_group'',
     ''qty'']"

definition labelled_cols :: "string list" where
  "labelled_cols = grouped_cols @ [''first_order'', ''new_acquisition_mode'']"

text \<open>One group seen in two releases and one group seen in a single release.\<close>

definition comp_example :: table where
  "comp_example = \<lparr>cols = labelled_cols,
     rows = [(order_row ''2023A'' ''B1'' ''C1'' ''A1'' ''EDI'' 202301 5)
               \<lparr>new_acquisition_mode := ''REPLENISHMENT''\<rparr>,
             (order_row ''2024A'' ''B1'' ''C1'' ''A1'' ''EDI'' 202401 7)
               \<lparr>new_acquisition_mode := ''REPLENISHMENT''\<rparr>,
             (order_row ''2024A'' ''B2'' ''C1'' ''A1'' ''EDI'' 202401 7)
               \<lparr>new_acquisition_mode := ''REPLENISHMENT''\<rparr>]\<rparr>"

text \<open>Two rows whose dimension values differ and whose joined keys are the same string.\<close>

definition key_collision :: table where
  "key_collision = \<lparr>cols = labelled_cols,
     rows = [(order_row ''2023A'' ''A-B'' ''C'' ''D'' ''EDI'' 202301 5)
               \<lparr>new_acquisition_mode := ''REPLENISHMENT''\<rparr>,
             (order_row ''2024A'' ''A'' ''B-C'' ''D'' ''EDI'' 202401 7)
               \<lparr>new_acquisition_mode := ''REPLENISHMENT''\<rparr>]\<rparr>"

text \<open>The columns of an imported file, and a small imported table.\<close>

definition raw_cols :: "string list" where
  "raw_cols = map snd new_col_name"

definition raw_example :: table where
  "raw_example = \<lparr>cols = raw_cols,
     rows = [(order_row ''2024A'' ''B1'' ''C1'' ''A1'' ''REP'' 202401 5)\<lparr>customer_type := Some ''BPF''\<rparr>,
             (order_row ''2024A'' ''B1'' ''C1'' ''A1'' ''REP'' 202401 7)\<lparr>customer_type := None\<rparr>]\<rparr>"

text \<open>One peer group with the quantities 10, 12, 11, 13, 9, 100.\<close>

definition iqr_example :: table where
  "iqr_example = \<lparr>cols = labelled_cols,
     rows = map (\<lambda>q. (order_row ''2024A'' ''B1'' ''C1'' ''A1'' ''EDI'' 202401 q)
                        \<lparr>new_acquisition_mode := ''REPLENISHMENT''\<rparr>)
                [10, 12, 11, 13, 9, 100]\<rparr>"

text \<open>One group with orders created in the weeks 202001, 202002 and 202005.\<close>

definition first_order_example :: table where
  "first_order_example = \<lparr>cols = grouped_cols,
     rows = map (\<lambda>yw. order_row ''2020A'' ''B1'' ''C1'' ''A1'' ''REP'' yw 1)
                [202001, 202002, 202005]\<rparr>"

text \<open>The same week 10 ordered in a release of 2023 and in a release of 2024.\<close>

definition common_example :: table where
  "common_example = \<lparr>cols = grouped_cols,
     rows = [order_row ''2023A'' ''B1'' ''C1'' ''A1'' ''REP'' 202310 1,
             order_row ''2024A'' ''B1'' ''C1'' ''A1'' ''REP'' 202410 1]\<rparr>"

text \<open>One group ordered in week 10 of two releases.\<close>

definition flags_example :: table where
  "flags_example = \<lparr>cols = grouped_cols,
     rows = [order_row ''2023A'' ''B1'' ''C1'' ''A1'' ''REP'' 202310 5,
             order_row ''2024A'' ''B1'' ''C1'' ''A1'' ''REP'' 202410 7]\<rparr>"

text \<open>The rows of that table once labelled.\<close>

definition flags_labelled :: "row list" where
  "flags_labelled = [(order_row ''2023A'' ''B1'' ''C1'' ''A1'' ''REP'' 202310 5)
                    \<lparr>new_acquisition_mode := ''REP REPLENISHMENT''\<rparr>,
                  (order_row ''2024A'' ''B1'' ''C1'' ''A1'' ''REP'' 202410 7)
                    \<lparr>new_acquisition_mode := ''REP REPLENISHMENT''\<rparr>]"

text \<open>One group with orders created in the weeks 202001 and 202003, two weeks apart.\<close>

definition first_order_boundary :: table where
  "first_order_boundary = \<lparr>cols = grouped_cols,
     rows = map (\<lambda>yw. order_row ''2020A'' ''B1'' ''C1'' ''A1'' ''REP'' yw 1)
                [202001, 202003]\<rparr>"

section \<open>Properties of the comparability flag\<close>

lemmas example_defs = labelled_cols_def grouped_cols_def missing_def
  order_row_def blank_row_def groups_in_both_releases_def nunique_release_def
  group_id_def yn_def

lemma missing_Nil_iff: "missing names df = [] \<longleftrightarrow> set names \<subseteq> set (cols df)"
  by (auto simp: missing_def filter_empty_conv)

lemma in_groups_in_both_releases:
  "g \<in> set (groups_in_both_releases key rs) \<longleftrightarrow>
     g \<in> key ` set rs \<and> card {release r |r. r \<in> set rs \<and> key r = g} = 2"
proof -
  have "{release r |r. r \<in> set rs \<and> key r = g} = set (map release (filter (\<lambda>r. key r = g) rs))"
    by auto
  then have "card {release r |r. r \<in> set rs \<and> key r = g}
      = length (remdups (map release (filter (\<lambda>r. key r = g) rs)))"
    by (simp only: length_remdups_card_conv)
  then show ?thesis
    by (auto simp: groups_in_both_releases_def nunique_release_def image_iff)
qed

text \<open>
  Where no brand, customer or area contains a dash, two rows have the same key exactly
  when they agree on the four dimensions.
\<close>

lemma dash_split:
  assumes "a @ ''-'' @ x = b @ ''-'' @ y" and "CHR ''-'' \<notin> set a" and "CHR ''-'' \<notin> set b"
  shows "a = b \<and> x = y"
proof -
  have ta: "takeWhile (\<lambda>c. c \<noteq> CHR ''-'') (a @ ''-'' @ x) = a"
    using assms(2) by (auto simp: takeWhile_tail)
  have tb: "takeWhile (\<lambda>c. c \<noteq> CHR ''-'') (b @ ''-'' @ y) = b"
    using assms(3) by (auto simp: takeWhile_tail)
  from ta tb assms(1) have "a = b" by simp
  with assms(1) show ?thesis by simp
qed

lemma group_id_eq_iff:
  assumes "CHR ''-'' \<notin> set (brand r) \<union> set (customer r) \<union> set (dedalo_area r)"
    and "CHR ''-'' \<notin> set (brand r') \<union> set (customer r') \<union> set (dedalo_area r')"
  shows "group_id r = group_id r' \<longleftrightarrow>
           brand r = brand r' \<and> customer r = customer r' \<and> dedalo_area r = dedalo_area r' \<and>
           new_acquisition_mode r = new_acquisition_mode r'"
proof
  assume e: "group_id r = group_id r'"
  from assms have d: "CHR ''-'' \<notin> set (brand r)" "CHR ''-'' \<notin> set (brand r')"
    "CHR ''-'' \<notin> set (customer r)" "CHR ''-'' \<notin> set (customer r')"
    "CHR ''-'' \<notin> set (dedalo_area r)" "CHR ''-'' \<notin> set (dedalo_area r')"
    by simp_all
  from e have "brand r @ ''-'' @ (customer r @ ''-'' @ dedalo_area r @ ''-'' @ new_acquisition_mode r)
      = brand r' @ ''-'' @ (customer r' @ ''-'' @ dedalo_area r' @ ''-'' @ new_acquisition_mode r')"
    by (simp add: group_id_def)
  from dash_split [OF this d(1,2)]
  have 1: "brand r = brand r'"
    and "customer r @ ''-'' @ (dedalo_area r @ ''-'' @ new_acquisition_mode r)
      = customer r' @ ''-'' @ (dedalo_area r' @ ''-'' @ new_acquisition_mode r')"
    by simp_all
  from dash_split [OF this(2) d(3,4)]
  have 2: "customer r = customer r'"
    and "dedalo_area r @ ''-'' @ new_acquisition_mode r
      = dedalo_area r' @ ''-'' @ new_acquisition_mode r'"
    by simp_all
  from dash_split [OF this(2) d(5,6)] 1 2
  show "brand r = brand r' \<and> customer r = customer r' \<and> dedalo_area r = dedalo_area r' \<and>
           new_acquisition_mode r = new_acquisition_mode r'"
    by simp
next
  assume "brand r = brand r' \<and> customer r = customer r' \<and> dedalo_area r = dedalo_area r' \<and>
           new_acquisition_mode r = new_acquisition_mode r'"
  then show "group_id r = group_id r'" by (simp add: group_id_def)
qed

lemma create_comp_flag_card:
  "r \<in> set (rows df) \<Longrightarrow>
     yn (group_id r \<in> set (groups_in_both_releases group_id (rows df)))
       = (if card {release r' |r'. r' \<in> set (rows df) \<and> group_id r' = group_id r} = 2
          then ''Y'' else ''N'')"
  by (simp add: in_groups_in_both_releases yn_def)

lemma create_comp_rows:
  "create_comp df = Inr df' \<Longrightarrow>
     rows df' = map (\<lambda>r. r\<lparr>comp :=
                   yn (group_id r \<in> set (groups_in_both_releases group_id (rows df)))\<rparr>) (rows df)"
  by (auto simp: create_comp_def split: list.splits)

text \<open>
  Claim C1. On a table that has the dimension columns, \<open>create_comp\<close> returns the rows in
  place, each with its \<open>comp\<close> cell set to Y exactly when the rows whose brand, customer,
  dedalo\_area and new\_acquisition\_mode, joined with dashes, give the row's own key
  carry exactly two distinct releases, and to N for every other count, one release or
  three and more alike. Where no brand, customer or dedalo\_area contains a dash, these
  are the rows that agree with the row on the four values.
\<close>

theorem create_comp_exactly_two:
  "(set [''brand'', ''customer'', ''dedalo_area'', ''new_acquisition_mode'', ''release'']
      \<subseteq> set (cols df) \<longrightarrow>
    (\<exists>df'. create_comp df = Inr df' \<and>
       length (rows df') = length (rows df) \<and>
       (\<forall>i < length (rows df).
          rows df' ! i = (rows df ! i)\<lparr>comp :=
            (if card {release r |r. r \<in> set (rows df) \<and>
                   brand r @ ''-'' @ customer r @ ''-'' @ dedalo_area r @ ''-''
                     @ new_acquisition_mode r
                   = brand (rows df ! i) @ ''-'' @ customer (rows df ! i) @ ''-''
                     @ dedalo_area (rows df ! i) @ ''-'' @ new_acquisition_mode (rows df ! i)} = 2
             then ''Y'' else ''N'')\<rparr>))) \<and>
   (set [''brand'', ''customer'', ''dedalo_area'', ''new_acquisition_mode'', ''release'']
      \<subseteq> set (cols df) \<and>
    (\<forall>r \<in> set (rows df).
       CHR ''-'' \<notin> set (brand r) \<union> set (customer r) \<union> set (dedalo_area r)) \<longrightarrow>
    (\<exists>df'. create_comp df = Inr df' \<and>
       length (rows df') = length (rows df) \<and>
       (\<forall>i < length (rows df).
          rows df' ! i = (rows df ! i)\<lparr>comp :=
            (if card {release r |r. r \<in> set (rows df) \<and>
                   brand r = brand (rows df ! i) \<and> customer r = customer (rows df ! i) \<and>
                   dedalo_area r = dedalo_area (rows df ! i) \<and>
                   new_acquisition_mode r = new_acquisition_mode (rows df ! i)} = 2
             then ''Y'' else ''N'')\<rparr>)))"
proof (intro conjI impI)
  assume c: "set [''brand'', ''customer'', ''dedalo_area'', ''new_acquisition_mode'', ''release'']
      \<subseteq> set (cols df)"
  then have m: "missing [''brand'', ''customer'', ''dedalo_area'', ''new_acquisition_mode'',
                    ''release''] df = []"
    by (simp only: missing_Nil_iff)
  have "\<And>r. r \<in> set (rows df) \<Longrightarrow>
      yn (group_id r \<in> set (groups_in_both_releases group_id (rows df)))
        = (if card {release r' |r'. r' \<in> set (rows df) \<and>
                   brand r' @ ''-'' @ customer r' @ ''-'' @ dedalo_area r' @ ''-''
                     @ new_acquisition_mode r'
                   = brand r @ ''-'' @ customer r @ ''-'' @ dedalo_area r @ ''-''
                     @ new_acquisition_mode r} = 2
           then ''Y'' else ''N'')"
    using create_comp_flag_card [of _ df] by (simp add: group_id_def)
  then show "\<exists>df'. create_comp df = Inr df' \<and>
       length (rows df') = length (rows df) \<and>
       (\<forall>i < length (rows df).
          rows df' ! i = (rows df ! i)\<lparr>comp :=
            (if card {release r |r. r \<in> set (rows df) \<and>
                   brand r @ ''-'' @ customer r @ ''-'' @ dedalo_area r @ ''-''
                     @ new_acquisition_mode r
                   = brand (rows df ! i) @ ''-'' @ customer (rows df ! i) @ ''-''
                     @ dedalo_area (rows df ! i) @ ''-'' @ new_acquisition_mode (rows df ! i)} = 2
             then ''Y'' else ''N'')\<rparr>)"
    unfolding create_comp_def m by simp
next
  assume a: "set [''brand'', ''customer'', ''dedalo_area'', ''new_acquisition_mode'', ''release'']
      \<subseteq> set (cols df) \<and>
    (\<forall>r \<in> set (rows df).
       CHR ''-'' \<notin> set (brand r) \<union> set (customer r) \<union> set (dedalo_area r))"
  then have m: "missing [''brand'', ''customer'', ''dedalo_area'', ''new_acquisition_mode'',
                    ''release''] df = []"
    by (simp only: missing_Nil_iff)
  have "\<And>r. r \<in> set (rows df) \<Longrightarrow>
      yn (group_id r \<in> set (groups_in_both_releases group_id (rows df)))
        = (if card {release r' |r'. r' \<in> set (rows df) \<and>
                   brand r' = brand r \<and> customer r' = customer r \<and>
                   dedalo_area r' = dedalo_area r \<and>
                   new_acquisition_mode r' = new_acquisition_mode r} = 2
           then ''Y'' else ''N'')"
  proof -
    fix r assume r: "r \<in> set (rows df)"
    have "{release r' |r'. r' \<in> set (rows df) \<and> group_id r' = group_id r}
        = {release r' |r'. r' \<in> set (rows df) \<and>
                   brand r' = brand r \<and> customer r' = customer r \<and>
                   dedalo_area r' = dedalo_area r \<and>
                   new_acquisition_mode r' = new_acquisition_mode r}"
      using a r by (auto simp: group_id_eq_iff)
    with create_comp_flag_card [OF r] show
      "yn (group_id r \<in> set (groups_in_both_releases group_id (rows df)))
        = (if card {release r' |r'. r' \<in> set (rows df) \<and>
                   brand r' = brand r \<and> customer r' = customer r \<and>
                   dedalo_area r' = dedalo_area r \<and>
                   new_acquisition_mode r' = new_acquisition_mode r} = 2
           then ''Y'' else ''N'')"
      by simp
  qed
  then show "\<exists>df'. create_comp df = Inr df' \<and>
       length (rows df') = length (rows df) \<and>
       (\<forall>i < length (rows df).
          rows df' ! i = (rows df ! i)\<lparr>comp :=
            (if card {release r |r. r \<in> set (rows df) \<and>
                   brand r = brand (rows df ! i) \<and> customer r = customer (rows df ! i) \<and>
                   dedalo_area r = dedalo_area (rows df ! i) \<and>
                   new_acquisition_mode r = new_acquisition_mode (rows df ! i)} = 2
             then ''Y'' else ''N'')\<rparr>)"
    unfolding create_comp_def m by simp
qed

theorem create_comp_exactly_two_witness:
  "set [''brand'', ''customer'', ''dedalo_area'', ''new_acquisition_mode'', ''release'']
     \<subseteq> set (cols comp_example) \<and>
   list_all (\<lambda>r. CHR ''-'' \<notin> set (brand r) \<union> set (customer r) \<union> set (dedalo_area r))
     (rows comp_example) \<and>
   (\<exists>df'. create_comp comp_example = Inr df' \<and> map comp (rows df') = [''Y'', ''Y'', ''N''])"
proof -
  have h: "set [''brand'', ''customer'', ''dedalo_area'', ''new_acquisition_mode'', ''release'']
     \<subseteq> set (cols comp_example)"
    by (simp add: comp_example_def labelled_cols_def grouped_cols_def)
  have n: "list_all (\<lambda>r. CHR ''-'' \<notin> set (brand r) \<union> set (customer r) \<union> set (dedalo_area r))
     (rows comp_example)"
    by (simp add: comp_example_def order_row_def)
  then have n': "\<forall>r \<in> set (rows comp_example).
      CHR ''-'' \<notin> set (brand r) \<union> set (customer r) \<union> set (dedalo_area r)"
    by (simp add: list_all_iff)
  from create_comp_exactly_two [THEN conjunct2, of comp_example] h n'
  obtain df' where d: "create_comp comp_example = Inr df'"
    by blast
  have "map comp (rows (projr (create_comp comp_example))) = [''Y'', ''Y'', ''N'']"
    by (simp add: create_comp_def comp_example_def labelled_cols_def grouped_cols_def missing_def
        order_row_def blank_row_def groups_in_both_releases_def nunique_release_def
        group_id_def yn_def)
  with d have v: "map comp (rows df') = [''Y'', ''Y'', ''N'']" by simp
  show ?thesis
  proof (intro conjI exI [of _ df'])
    show "set [''brand'', ''customer'', ''dedalo_area'', ''new_acquisition_mode'', ''release'']
     \<subseteq> set (cols comp_example)" by fact
    show "list_all (\<lambda>r. CHR ''-'' \<notin> set (brand r) \<union> set (customer r) \<union> set (dedalo_area r))
     (rows comp_example)" by fact
    show "create_comp comp_example = Inr df'" by fact
    show "map comp (rows df') = [''Y'', ''Y'', ''N'']" by fact
  qed
qed

text \<open>
  Claim C10. The comp flag of a row depends only on the string that joins its brand,
  customer, dedalo\_area and new\_acquisition\_mode with dashes: the flag is Y exactly when
  the rows with that same string carry two distinct releases, so two rows with the same
  string get the same flag. There is a table of two rows whose values contain dashes,
  whose dimension tuples differ and whose strings are equal; the two rows, one per
  release, are flagged Y together, while either row alone is flagged N.
\<close>

theorem comp_key_is_concatenation:
  "(create_comp df = Inr df' \<and> i < length (rows df) \<longrightarrow>
      comp (rows df' ! i) =
        (if card {release r |r. r \<in> set (rows df) \<and>
               brand r @ ''-'' @ customer r @ ''-'' @ dedalo_area r @ ''-''
                 @ new_acquisition_mode r
               = brand (rows df ! i) @ ''-'' @ customer (rows df ! i) @ ''-''
                 @ dedalo_area (rows df ! i) @ ''-'' @ new_acquisition_mode (rows df ! i)} = 2
         then ''Y'' else ''N'')) \<and>
   (create_comp df = Inr df' \<and> i < length (rows df) \<and> j < length (rows df) \<and>
      brand (rows df ! i) @ ''-'' @ customer (rows df ! i) @ ''-''
        @ dedalo_area (rows df ! i) @ ''-'' @ new_acquisition_mode (rows df ! i)
      = brand (rows df ! j) @ ''-'' @ customer (rows df ! j) @ ''-''
        @ dedalo_area (rows df ! j) @ ''-'' @ new_acquisition_mode (rows df ! j)
      \<longrightarrow> comp (rows df' ! i) = comp (rows df' ! j)) \<and>
   (\<exists>t t' r1 r2.
      rows t = [r1, r2] \<and>
      CHR ''-'' \<in> set (brand r1) \<and> CHR ''-'' \<in> set (customer r2) \<and>
      (brand r1, customer r1, dedalo_area r1, new_acquisition_mode r1)
        \<noteq> (brand r2, customer r2, dedalo_area r2, new_acquisition_mode r2) \<and>
      brand r1 @ ''-'' @ customer r1 @ ''-'' @ dedalo_area r1 @ ''-'' @ new_acquisition_mode r1
        = brand r2 @ ''-'' @ customer r2 @ ''-'' @ dedalo_area r2 @ ''-''
            @ new_acquisition_mode r2 \<and>
      release r1 \<noteq> release r2 \<and>
      create_comp t = Inr t' \<and> map comp (rows t') = [''Y'', ''Y''] \<and>
      (\<exists>t1. create_comp (t\<lparr>rows := [r1]\<rparr>) = Inr t1 \<and> map comp (rows t1) = [''N'']) \<and>
      (\<exists>t2. create_comp (t\<lparr>rows := [r2]\<rparr>) = Inr t2 \<and> map comp (rows t2) = [''N'']))"
proof (intro conjI impI)
  assume a: "create_comp df = Inr df' \<and> i < length (rows df)"
  then have "comp (rows df' ! i)
      = yn (group_id (rows df ! i) \<in> set (groups_in_both_releases group_id (rows df)))"
    by (auto dest!: create_comp_rows)
  also have "\<dots> = (if card {release r |r. r \<in> set (rows df) \<and>
               group_id r = group_id (rows df ! i)} = 2 then ''Y'' else ''N'')"
    using a by (intro create_comp_flag_card) simp
  finally show "comp (rows df' ! i) =
        (if card {release r |r. r \<in> set (rows df) \<and>
               brand r @ ''-'' @ customer r @ ''-'' @ dedalo_area r @ ''-''
                 @ new_acquisition_mode r
               = brand (rows df ! i) @ ''-'' @ customer (rows df ! i) @ ''-''
                 @ dedalo_area (rows df ! i) @ ''-'' @ new_acquisition_mode (rows df ! i)} = 2
         then ''Y'' else ''N'')"
    by (simp add: group_id_def)
next
  assume a: "create_comp df = Inr df' \<and> i < length (rows df) \<and> j < length (rows df) \<and>
      brand (rows df ! i) @ ''-'' @ customer (rows df ! i) @ ''-''
        @ dedalo_area (rows df ! i) @ ''-'' @ new_acquisition_mode (rows df ! i)
      = brand (rows df ! j) @ ''-'' @ customer (rows df ! j) @ ''-''
        @ dedalo_area (rows df ! j) @ ''-'' @ new_acquisition_mode (rows df ! j)"
  then have "group_id (rows df ! i) = group_id (rows df ! j)"
    by (simp add: group_id_def)
  with a show "comp (rows df' ! i) = comp (rows df' ! j)"
    by (auto dest!: create_comp_rows)
next
  let ?r1 = "(order_row ''2023A'' ''A-B'' ''C'' ''D'' ''EDI'' 202301 5)
               \<lparr>new_acquisition_mode := ''REPLENISHMENT''\<rparr>"
  let ?r2 = "(order_row ''2024A'' ''A'' ''B-C'' ''D'' ''EDI'' 202401 7)
               \<lparr>new_acquisition_mode := ''REPLENISHMENT''\<rparr>"
  have 1: "rows key_collision = [?r1, ?r2]"
    by (simp add: key_collision_def)
  have 2: "(brand ?r1, customer ?r1, dedalo_area ?r1, new_acquisition_mode ?r1)
        \<noteq> (brand ?r2, customer ?r2, dedalo_area ?r2, new_acquisition_mode ?r2)"
    by (simp add: order_row_def)
  have 3: "brand ?r1 @ ''-'' @ customer ?r1 @ ''-'' @ dedalo_area ?r1 @ ''-''
             @ new_acquisition_mode ?r1
        = brand ?r2 @ ''-'' @ customer ?r2 @ ''-'' @ dedalo_area ?r2 @ ''-''
            @ new_acquisition_mode ?r2"
    by (simp add: order_row_def blank_row_def)
  have 4: "\<exists>t'. create_comp key_collision = Inr t' \<and> map comp (rows t') = [''Y'', ''Y'']"
    by (simp add: create_comp_def key_collision_def example_defs)
  have 5: "\<exists>t1. create_comp (key_collision\<lparr>rows := [?r1]\<rparr>) = Inr t1 \<and> map comp (rows t1) = [''N'']"
    by (simp add: create_comp_def key_collision_def example_defs)
  have 6: "\<exists>t2. create_comp (key_collision\<lparr>rows := [?r2]\<rparr>) = Inr t2 \<and> map comp (rows t2) = [''N'']"
    by (simp add: create_comp_def key_collision_def example_defs)
  have 9: "CHR ''-'' \<in> set (brand ?r1)" "CHR ''-'' \<in> set (customer ?r2)"
    "release ?r1 \<noteq> release ?r2"
    by (simp_all add: order_row_def)
  from 4 obtain t' where 7: "create_comp key_collision = Inr t'"
    and 8: "map comp (rows t') = [''Y'', ''Y'']" by (elim exE conjE)
  show "\<exists>t t' r1 r2.
      rows t = [r1, r2] \<and>
      CHR ''-'' \<in> set (brand r1) \<and> CHR ''-'' \<in> set (customer r2) \<and>
      (brand r1, customer r1, dedalo_area r1, new_acquisition_mode r1)
        \<noteq> (brand r2, customer r2, dedalo_area r2, new_acquisition_mode r2) \<and>
      brand r1 @ ''-'' @ customer r1 @ ''-'' @ dedalo_area r1 @ ''-'' @ new_acquisition_mode r1
        = brand r2 @ ''-'' @ customer r2 @ ''-'' @ dedalo_area r2 @ ''-''
            @ new_acquisition_mode r2 \<and>
      release r1 \<noteq> release r2 \<and>
      create_comp t = Inr t' \<and> map comp (rows t') = [''Y'', ''Y''] \<and>
      (\<exists>t1. create_comp (t\<lparr>rows := [r1]\<rparr>) = Inr t1 \<and> map comp (rows t1) = [''N'']) \<and>
      (\<exists>t2. create_comp (t\<lparr>rows := [r2]\<rparr>) = Inr t2 \<and> map comp (rows t2) = [''N''])"
    apply (rule exI [of _ key_collision])
    apply (rule exI [of _ t'])
    apply (rule exI [of _ ?r1])
    apply (rule exI [of _ ?r2])
    using 1 2 3 5 6 7 8 9 by (intro conjI)
qed

theorem comp_key_is_concatenation_witness:
  "\<exists>df'. create_comp key_collision = Inr df' \<and>
         map (\<lambda>r. brand r @ ''-'' @ customer r @ ''-'' @ dedalo_area r @ ''-''
                    @ new_acquisition_mode r) (rows key_collision)
           = [''A-B-C-D-REPLENISHMENT'', ''A-B-C-D-REPLENISHMENT''] \<and>
         map (\<lambda>r. (brand r, customer r)) (rows key_collision)
           = [(''A-B'', ''C''), (''A'', ''B-C'')] \<and>
         comp (rows df' ! 0) = comp (rows df' ! 1)"
proof -
  obtain df' where d: "create_comp key_collision = Inr df'"
    by (simp add: create_comp_def key_collision_def example_defs)
  have g: "map (\<lambda>r. brand r @ ''-'' @ customer r @ ''-'' @ dedalo_area r @ ''-''
                    @ new_acquisition_mode r) (rows key_collision)
           = [''A-B-C-D-REPLENISHMENT'', ''A-B-C-D-REPLENISHMENT'']"
    by (simp add: key_collision_def order_row_def blank_row_def)
  then have g': "brand (rows key_collision ! 0) @ ''-'' @ customer (rows key_collision ! 0) @ ''-''
        @ dedalo_area (rows key_collision ! 0) @ ''-'' @ new_acquisition_mode (rows key_collision ! 0)
      = brand (rows key_collision ! 1) @ ''-'' @ customer (rows key_collision ! 1) @ ''-''
        @ dedalo_area (rows key_collision ! 1) @ ''-'' @ new_acquisition_mode (rows key_collision ! 1)"
    by (simp add: key_collision_def order_row_def blank_row_def)
  have l: "0 < length (rows key_collision)" "1 < length (rows key_collision)"
    by (simp_all add: key_collision_def)
  have k: "map (\<lambda>r. (brand r, customer r)) (rows key_collision)
           = [(''A-B'', ''C''), (''A'', ''B-C'')]"
    by (simp add: key_collision_def order_row_def)
  from comp_key_is_concatenation [THEN conjunct2, THEN conjunct1, of key_collision df' 0 1] d g' l
  have c: "comp (rows df' ! 0) = comp (rows df' ! 1)" by blast
  show ?thesis
  proof (intro exI [of _ df'] conjI)
    show "create_comp key_collision = Inr df'" by fact
    show "map (\<lambda>r. brand r @ ''-'' @ customer r @ ''-'' @ dedalo_area r @ ''-''
                    @ new_acquisition_mode r) (rows key_collision)
           = [''A-B-C-D-REPLENISHMENT'', ''A-B-C-D-REPLENISHMENT'']" by fact
    show "map (\<lambda>r. (brand r, customer r)) (rows key_collision)
           = [(''A-B'', ''C''), (''A'', ''B-C'')]" by fact
    show "comp (rows df' ! 0) = comp (rows df' ! 1)" by fact
  qed
qed

section \<open>Properties of import and export\<close>

lemma columns_match_foo: "columns_match [Str ''foo''] = Inr False"
  by (simp add: columns_match_def sorted_labels_def and_then_def new_col_name_def)

lemma suffix_orders_csv: "suffix [''data'', ''orders.csv''] = ''.csv''"
  by (simp add: suffix_def path_name_def rfind_dot_def)

text \<open>
  Whatever the frame read from a file with a supported extension, if its labels are all
  text the import returns it: the comparison of the columns decides nothing.
\<close>

lemma sorted_labels_Str: "list_all is_Str ls \<Longrightarrow> \<exists>a. sorted_labels ls = Inr a"
  by (simp add: sorted_labels_def)

lemma is_Str_rename_label: "is_Str (rename_label l) = is_Str l"
  by (cases l) (simp_all add: rename_label_def split: option.splits)

lemma import_one_file_never_checks:
  assumes "suffix p = ''.csv''" and "rd Read_csv p = Inr df" and "list_all is_Str (columns df)"
  shows "import_one_file rd p = Inr (df\<lparr>columns := map rename_label (columns df)\<rparr>)"
proof -
  have "list_all is_Str (map rename_label (columns df))"
    using assms(3) by (simp add: list_all_iff is_Str_rename_label)
  then obtain a where a: "sorted_labels (map rename_label (columns df)) = Inr a"
    using sorted_labels_Str by blast
  have "list_all is_Str (map (\<lambda>kv. Str (snd kv)) new_col_name)"
    by (simp add: list_all_iff)
  then obtain b where b: "sorted_labels (map (\<lambda>kv. Str (snd kv)) new_col_name) = Inr b"
    using sorted_labels_Str by blast
  have "columns_match (map rename_label (columns df)) = Inr (a = b)"
    by (simp add: columns_match_def a b and_then_def)
  then show ?thesis
    using assms(1,2) by (simp add: import_one_file_def valid_extensions_def and_then_def Let_def)
qed

text \<open>
  Claim C3, at the failing input: a csv file whose only column is \<open>foo\<close>. The columns do
  not match the canonical set (the comparison the code computes is false), and the import
  returns the frame all the same.
\<close>

theorem import_one_file_mismatch_returns:
  "columns_match (map rename_label [Str ''foo'']) = Inr False \<and>
   import_one_file (\<lambda>k p. Inr \<lparr>columns = [Str ''foo''], body = ()\<rparr>) [''data'', ''orders.csv'']
     = Inr \<lparr>columns = [Str ''foo''], body = ()\<rparr>"
proof -
  have r: "rename_label (Str ''foo'') = Str ''foo''"
    by (simp add: rename_label_def new_col_name_def)
  have "import_one_file (\<lambda>k p. Inr \<lparr>columns = [Str ''foo''], body = ()\<rparr>) [''data'', ''orders.csv'']
     = Inr (\<lparr>columns = [Str ''foo''], body = ()\<rparr>\<lparr>columns := map rename_label [Str ''foo'']\<rparr>)"
    using import_one_file_never_checks [of "[''data'', ''orders.csv'']"
        "\<lambda>k p. Inr \<lparr>columns = [Str ''foo''], body = ()\<rparr>" "\<lparr>columns = [Str ''foo''], body = ()\<rparr>"]
    by (simp add: suffix_orders_csv)
  then show ?thesis by (simp add: r columns_match_foo)
qed

lemma import_one_file_unsupported:
  "suffix p \<notin> set valid_extensions \<Longrightarrow>
     import_one_file rd p = Inl (ValueError ''Extension different from .xlsx, .csv, .parquet'')"
  by (simp add: import_one_file_def)

text \<open>
  Claim C6, at the failing input: \<open>save\<close> with the output name \<open>df_comp.txt\<close> returns
  normally and leaves the files as they were, where the import raises (lemma
  \<open>import_one_file_unsupported\<close>).
\<close>

theorem save_unsupported_returns:
  "split_last ''df_comp.txt'' = ''txt'' \<and> save fs df out ''df_comp.txt'' = Inr fs"
  by (simp add: save_def split_last_def)

lemma save_unsupported:
  "split_last name \<notin> set [''xlsx'', ''parquet'', ''csv''] \<Longrightarrow> save fs df out name = Inr fs"
  by (simp add: save_def)

section \<open>Properties of cleaning\<close>

lemma replace_value_None: "replace_value c = None \<longleftrightarrow> c = None"
  by (simp add: replace_value_def split: option.splits)












lemma length_merge_area:
  "length (merge_area df_area rs)
     = (\<Sum>r\<leftarrow>rs. length (filter (\<lambda>l. fst l = dedalo_area r) df_area))"
  by (simp add: merge_area_def length_concat o_def)

lemma length_merge_area_one:
  assumes "\<forall>r \<in> set rs. length (filter (\<lambda>l. fst l = dedalo_area r) df_area) = 1"
  shows "length (merge_area df_area rs) = length rs"
proof -
  have "(\<Sum>r\<leftarrow>rs. length (filter (\<lambda>l. fst l = dedalo_area r) df_area)) = (\<Sum>r\<leftarrow>rs. 1)"
    using assms by (intro arg_cong [where f = sum_list] map_cong) auto
  then show ?thesis by (simp add: length_merge_area sum_list_triv)
qed

lemma sum_matches_le:
  "\<forall>r \<in> set rs. n r \<le> (1 :: nat) \<Longrightarrow> sum_list (map n rs) \<le> length rs"
  by (induction rs) (auto simp: le_Suc_eq)

lemma sum_matches_less:
  "\<forall>r \<in> set rs. n r \<le> (1 :: nat) \<Longrightarrow> \<exists>r \<in> set rs. n r = 0 \<Longrightarrow>
     sum_list (map n rs) < length rs"
proof (induction rs)
  case Nil
  then show ?case by simp
next
  case (Cons r rs)
  show ?case
  proof (cases "n r = 0")
    case True
    moreover have "sum_list (map n rs) \<le> length rs"
      using Cons.prems(1) by (intro sum_matches_le) simp
    ultimately show ?thesis by simp
  next
    case False
    with Cons.prems have "n r = 1" and "\<exists>r \<in> set rs. n r = 0" and "\<forall>r \<in> set rs. n r \<le> 1"
      by auto
    with Cons.IH show ?thesis by simp
  qed
qed

lemma merge_area_one:
  "\<forall>r \<in> set rs. length (filter (\<lambda>l. fst l = dedalo_area r) df_area) = 1 \<Longrightarrow>
     merge_area df_area rs
       = map (\<lambda>r. r\<lparr>launch_type := snd (hd (filter (\<lambda>l. fst l = dedalo_area r) df_area))\<rparr>) rs"
proof (induction rs)
  case Nil
  then show ?case by (simp add: merge_area_def)
next
  case (Cons r rs)
  then obtain l where "filter (\<lambda>l. fst l = dedalo_area r) df_area = [l]"
    by (auto simp: length_Suc_conv)
  with Cons show ?case by (simp add: merge_area_def)
qed

text \<open>
  Claim C7 as stated fails: with a lookup that has at most one row per area (here a
  single row, for another area) the join drops the only row of the table and
  \<open>cleaning\<close> raises.
\<close>

theorem cleaning_left_join_counterexample:
  "distinct (map fst [(''A2'', Some ''L'')]) \<and>
   cleaning (Inr [(''A2'', Some ''L'')]) raw_example True
     = Inl (AssertionError ''Number of rows is not correct, check the merge'')"
  apply (simp add: cleaning_def and_then_def replacing_values_def raw_example_def raw_cols_def new_col_name_def missing_def
        Let_def mode_def replace_value_def DICT_CUSTOMER_TYPE_def order_row_def)
  apply (simp add: grouping_def missing_def columns_to_group_def grouping_key_def row_of_key_def blank_row_def merge_area_def)
  done

text \<open>
  Claim C7, amended. With the area option, \<open>cleaning\<close> joins the grouped table with the
  lookup on dedalo\_area by an inner join: every grouped row comes back once for each row
  of the lookup with its area, carrying that row's launch type, and not at all when the
  lookup has none. \<open>cleaning\<close> returns the joined table when it has as many rows as the
  grouped table and raises the assertion error otherwise. So it raises when the lookup
  has at most one row per area and lacks the area of some grouped row; and when the
  lookup has exactly one row for the area of every grouped row it returns every grouped
  row, in place, with the launch type of its area, and the row count is the one before
  the join.
\<close>

theorem cleaning_area_join:
  "replacing_values df = Inr df1 \<and> grouping df1 = Inr df2 \<longrightarrow>
     cleaning (Inr df_area) df True =
       (if (\<Sum>r\<leftarrow>rows df2. length (filter (\<lambda>l. fst l = dedalo_area r) df_area))
             = length (rows df2)
        then Inr \<lparr>cols = add_col ''launch_type'' (cols df2),
                  rows = concat (map (\<lambda>r. map (\<lambda>l. r\<lparr>launch_type := snd l\<rparr>)
                                              (filter (\<lambda>l. fst l = dedalo_area r) df_area))
                                     (rows df2))\<rparr>
        else Inl (AssertionError ''Number of rows is not correct, check the merge'')) \<and>
     ((\<forall>r \<in> set (rows df2). length (filter (\<lambda>l. fst l = dedalo_area r) df_area) \<le> 1) \<and>
      (\<exists>r \<in> set (rows df2). filter (\<lambda>l. fst l = dedalo_area r) df_area = []) \<longrightarrow>
        cleaning (Inr df_area) df True
          = Inl (AssertionError ''Number of rows is not correct, check the merge'')) \<and>
     ((\<forall>r \<in> set (rows df2). length (filter (\<lambda>l. fst l = dedalo_area r) df_area) = 1) \<longrightarrow>
        (\<exists>df3. cleaning (Inr df_area) df True = Inr df3 \<and>
               length (rows df3) = length (rows df2) \<and>
               rows df3 = map (\<lambda>r. r\<lparr>launch_type :=
                                 snd (hd (filter (\<lambda>l. fst l = dedalo_area r) df_area))\<rparr>)
                              (rows df2)))"
proof (intro impI)
  assume a: "replacing_values df = Inr df1 \<and> grouping df1 = Inr df2"
  let ?n = "\<lambda>r. length (filter (\<lambda>l. fst l = dedalo_area r) df_area)"
  let ?fail = "Inl (AssertionError ''Number of rows is not correct, check the merge'') :: error + table"
  have c: "cleaning (Inr df_area) df True =
        (if length (merge_area df_area (rows df2)) = length (rows df2)
         then Inr \<lparr>cols = add_col ''launch_type'' (cols df2), rows = merge_area df_area (rows df2)\<rparr>
         else ?fail)"
    using a by (simp add: cleaning_def and_then_def Let_def)
  have A: "cleaning (Inr df_area) df True =
       (if (\<Sum>r\<leftarrow>rows df2. ?n r) = length (rows df2)
        then Inr \<lparr>cols = add_col ''launch_type'' (cols df2),
                  rows = concat (map (\<lambda>r. map (\<lambda>l. r\<lparr>launch_type := snd l\<rparr>)
                                              (filter (\<lambda>l. fst l = dedalo_area r) df_area))
                                     (rows df2))\<rparr>
        else ?fail)"
    unfolding c length_merge_area by (simp add: merge_area_def)
  have B: "(\<forall>r \<in> set (rows df2). ?n r \<le> 1) \<and>
      (\<exists>r \<in> set (rows df2). filter (\<lambda>l. fst l = dedalo_area r) df_area = []) \<longrightarrow>
        cleaning (Inr df_area) df True = ?fail"
  proof
    assume b: "(\<forall>r \<in> set (rows df2). ?n r \<le> 1) \<and>
      (\<exists>r \<in> set (rows df2). filter (\<lambda>l. fst l = dedalo_area r) df_area = [])"
    then have "\<exists>r \<in> set (rows df2). ?n r = 0" by simp
    with b have "sum_list (map ?n (rows df2)) < length (rows df2)"
      by (intro sum_matches_less) simp_all
    then show "cleaning (Inr df_area) df True = ?fail"
      unfolding A by simp
  qed
  have C: "(\<forall>r \<in> set (rows df2). ?n r = 1) \<longrightarrow>
        (\<exists>df3. cleaning (Inr df_area) df True = Inr df3 \<and>
               length (rows df3) = length (rows df2) \<and>
               rows df3 = map (\<lambda>r. r\<lparr>launch_type :=
                                 snd (hd (filter (\<lambda>l. fst l = dedalo_area r) df_area))\<rparr>)
                              (rows df2))"
  proof
    assume one: "\<forall>r \<in> set (rows df2). ?n r = 1"
    then have len: "length (merge_area df_area (rows df2)) = length (rows df2)"
      by (rule length_merge_area_one)
    from one have "merge_area df_area (rows df2)
       = map (\<lambda>r. r\<lparr>launch_type := snd (hd (filter (\<lambda>l. fst l = dedalo_area r) df_area))\<rparr>)
             (rows df2)"
      by (rule merge_area_one)
    with len show "\<exists>df3. cleaning (Inr df_area) df True = Inr df3 \<and>
               length (rows df3) = length (rows df2) \<and>
               rows df3 = map (\<lambda>r. r\<lparr>launch_type :=
                                 snd (hd (filter (\<lambda>l. fst l = dedalo_area r) df_area))\<rparr>)
                              (rows df2)"
      unfolding c by simp
  qed
  from A B C show "cleaning (Inr df_area) df True =
       (if (\<Sum>r\<leftarrow>rows df2. ?n r) = length (rows df2)
        then Inr \<lparr>cols = add_col ''launch_type'' (cols df2),
                  rows = concat (map (\<lambda>r. map (\<lambda>l. r\<lparr>launch_type := snd l\<rparr>)
                                              (filter (\<lambda>l. fst l = dedalo_area r) df_area))
                                     (rows df2))\<rparr>
        else ?fail) \<and>
     ((\<forall>r \<in> set (rows df2). ?n r \<le> 1) \<and>
      (\<exists>r \<in> set (rows df2). filter (\<lambda>l. fst l = dedalo_area r) df_area = []) \<longrightarrow>
        cleaning (Inr df_area) df True = ?fail) \<and>
     ((\<forall>r \<in> set (rows df2). ?n r = 1) \<longrightarrow>
        (\<exists>df3. cleaning (Inr df_area) df True = Inr df3 \<and>
               length (rows df3) = length (rows df2) \<and>
               rows df3 = map (\<lambda>r. r\<lparr>launch_type :=
                                 snd (hd (filter (\<lambda>l. fst l = dedalo_area r) df_area))\<rparr>)
                              (rows df2)))"
    by (intro conjI)
qed

lemma raw_example_grouped:
  "\<exists>df1. replacing_values raw_example = Inr df1 \<and>
     grouping df1 = Inr \<lparr>cols = columns_to_group @ [''qty''],
          rows = [(order_row ''2024A'' ''B1'' ''C1'' ''A1'' ''REP'' 202401 12)]\<rparr>"
  apply (simp add: replacing_values_def raw_example_def raw_cols_def new_col_name_def missing_def
        Let_def mode_def replace_value_def DICT_CUSTOMER_TYPE_def order_row_def)
  apply (simp add: grouping_def missing_def columns_to_group_def grouping_key_def row_of_key_def blank_row_def)
  done

theorem cleaning_area_join_witness:
  "(\<exists>df3. cleaning (Inr [(''A1'', Some ''L''), (''A2'', None)]) raw_example True = Inr df3 \<and>
         map launch_type (rows df3) = [Some ''L''] \<and> map qty (rows df3) = [12] \<and>
         length (rows df3) = 1) \<and>
   cleaning (Inr [(''A2'', Some ''L'')]) raw_example True
     = Inl (AssertionError ''Number of rows is not correct, check the merge'')"
proof -
  let ?g = "\<lparr>cols = columns_to_group @ [''qty''],
          rows = [(order_row ''2024A'' ''B1'' ''C1'' ''A1'' ''REP'' 202401 12)]\<rparr>"
  let ?a = "[(''A1'', Some ''L''), (''A2'', None)]"
  let ?b = "[(''A2'', Some ''L'')]"
  from raw_example_grouped obtain df1 where
    1: "replacing_values raw_example = Inr df1" and 2: "grouping df1 = Inr ?g"
    by (elim exE conjE)
  have 3: "\<forall>r \<in> set (rows ?g). length (filter (\<lambda>l. fst l = dedalo_area r) ?a) = 1"
    by (simp add: order_row_def)
  from cleaning_area_join [of raw_example df1 ?g ?a] 1 2 3
  obtain df3 where 5: "cleaning (Inr ?a) raw_example True = Inr df3"
    and 6: "length (rows df3) = length (rows ?g)"
    and 7: "rows df3 = map (\<lambda>r. r\<lparr>launch_type :=
                                 snd (hd (filter (\<lambda>l. fst l = dedalo_area r) ?a))\<rparr>)
                              (rows ?g)"
    by blast
  from 7 have 8: "map launch_type (rows df3) = [Some ''L'']" "map qty (rows df3) = [12]"
    by (simp_all add: order_row_def)
  from 6 have 9: "length (rows df3) = 1" by simp
  have 10: "\<forall>r \<in> set (rows ?g). length (filter (\<lambda>l. fst l = dedalo_area r) ?b) \<le> 1"
    by (simp add: order_row_def)
  have 11: "\<exists>r \<in> set (rows ?g). filter (\<lambda>l. fst l = dedalo_area r) ?b = []"
    by (simp add: order_row_def)
  from cleaning_area_join [of raw_example df1 ?g ?b] 1 2 10 11
  have 12: "cleaning (Inr ?b) raw_example True
     = Inl (AssertionError ''Number of rows is not correct, check the merge'')"
    by blast
  show ?thesis
  proof (intro conjI exI [of _ df3])
    show "cleaning (Inr ?a) raw_example True = Inr df3" by fact
    show "map launch_type (rows df3) = [Some ''L'']" by fact
    show "map qty (rows df3) = [12]" by fact
    show "length (rows df3) = 1" by fact
    show "cleaning (Inr ?b) raw_example True
     = Inl (AssertionError ''Number of rows is not correct, check the merge'')" by fact
  qed
qed

section \<open>Properties of outlier detection\<close>

lemma sequence_Inr: "sequence (map (\<lambda>x. Inr (h x)) xs) = Inr (map h xs)"
  by (induction xs) simp_all

lemma map2_same: "map2 f xs (map h xs) = map (\<lambda>x. f x (h x)) xs"
  by (induction xs) simp_all

text \<open>Splitting a list into its groups and putting the groups together loses no element.\<close>

lemma mset_groups:
  assumes "distinct gs" and "key ` set xs \<subseteq> set gs"
  shows "(\<Sum>g\<leftarrow>gs. mset (filter (\<lambda>x. key x = g) xs)) = mset xs"
  using assms(2)
proof (induction xs)
  case Nil
  then show ?case by (simp add: sum_list_0)
next
  case (Cons x xs)
  have "(\<Sum>g\<leftarrow>gs. if key x = g then {#x#} else {#}) = (\<Sum>g\<in>set gs. if key x = g then {#x#} else {#})"
    using assms(1) by (simp add: sum_list_distinct_conv_sum_set)
  also have "\<dots> = {#x#}"
    using Cons.prems by (simp add: sum.delta')
  finally have one: "(\<Sum>g\<leftarrow>gs. if key x = g then {#x#} else {#}) = {#x#}" .
  have "(\<Sum>g\<leftarrow>gs. mset (filter (\<lambda>y. key y = g) (x # xs)))
      = (\<Sum>g\<leftarrow>gs. (if key x = g then {#x#} else {#}) + mset (filter (\<lambda>y. key y = g) xs))"
    by (intro arg_cong [where f = sum_list] map_cong) auto
  also have "\<dots> = (\<Sum>g\<leftarrow>gs. if key x = g then {#x#} else {#})
                   + (\<Sum>g\<leftarrow>gs. mset (filter (\<lambda>y. key y = g) xs))"
    by (simp add: sum_list_addf)
  finally show ?case using one Cons by simp
qed

text \<open>The flag the IQR rule gives a quantity \<open>q\<close> among the quantities \<open>peers\<close> of its group.\<close>

lemma detect_outliers_iqr_flags:
  "detect_outliers_iqr qs =
     map (\<lambda>q. let Q1 = quantile qs (1 / 4); Q3 = quantile qs (3 / 4); IQR = Q3 - Q1
               in \<not> (max 2 (Q1 - (3 / 2) * IQR) \<le> of_int q \<and> of_int q \<le> Q3 + (3 / 2) * IQR)) qs"
  by (simp only: detect_outliers_iqr_def Let_def)

lemma groupby_apply_iqr:
  assumes "set [''brand'', ''dedalo_area'', ''new_acquisition_mode'', ''qty''] \<subseteq> set (cols df)"
    and "rows df \<noteq> []"
  shows "groupby_apply (\<lambda>qs. Inr (detect_outliers_iqr qs)) df =
     Inr \<lparr>cols = add_col ''outlier'' (cols df),
          rows = concat (map (\<lambda>g. map (\<lambda>r. r\<lparr>outlier :=
                     (let peers = map qty (filter (\<lambda>r'. outlier_key r' = outlier_key r) (rows df));
                          Q1 = quantile peers (1 / 4); Q3 = quantile peers (3 / 4); IQR = Q3 - Q1
                      in \<not> (max 2 (Q1 - (3 / 2) * IQR) \<le> of_int (qty r)
                            \<and> of_int (qty r) \<le> Q3 + (3 / 2) * IQR))\<rparr>)
                   (filter (\<lambda>r. outlier_key r = g) (rows df)))
                 (remdups (map outlier_key (rows df))))\<rparr>"
proof -
  have m1: "missing [''brand'', ''dedalo_area'', ''new_acquisition_mode''] df = []"
    and m2: "missing [''qty''] df = []"
    using assms(1) by (simp_all add: missing_Nil_iff)
  have grp: "\<And>g. map2 (\<lambda>r b. r\<lparr>outlier := b\<rparr>) (filter (\<lambda>r. outlier_key r = g) (rows df))
        (detect_outliers_iqr (map qty (filter (\<lambda>r. outlier_key r = g) (rows df))))
      = map (\<lambda>r. r\<lparr>outlier :=
                     (let peers = map qty (filter (\<lambda>r'. outlier_key r' = outlier_key r) (rows df));
                          Q1 = quantile peers (1 / 4); Q3 = quantile peers (3 / 4); IQR = Q3 - Q1
                      in \<not> (max 2 (Q1 - (3 / 2) * IQR) \<le> of_int (qty r)
                            \<and> of_int (qty r) \<le> Q3 + (3 / 2) * IQR))\<rparr>)
                   (filter (\<lambda>r. outlier_key r = g) (rows df))"
    by (simp add: detect_outliers_iqr_flags Let_def zip_map2 zip_same_conv_map o_def split_def)
  have len: "\<And>g. length (detect_outliers_iqr (map qty (filter (\<lambda>r. outlier_key r = g) (rows df))))
      = length (filter (\<lambda>r. outlier_key r = g) (rows df))"
    by (simp add: detect_outliers_iqr_def Let_def)
  show ?thesis
    unfolding groupby_apply_def m1 m2 using assms(2)
    by (simp add: Let_def len grp sequence_Inr del: map_map)
qed


lemma iqr_example_quartiles:
  "quantile [10, 12, 11, 13, 9, 100] (1 / 4) = 41 / 4 \<and>
   quantile [10, 12, 11, 13, 9, 100] (3 / 4) = 51 / 4"
  by code_simp

lemma iqr_example_flags:
  "detect_outliers_iqr [10, 12, 11, 13, 9, 100] = [False, False, False, False, False, True]"
  by (simp add: detect_outliers_iqr_def iqr_example_quartiles Let_def)

lemma iqr_example_cols:
  "set [''brand'', ''dedalo_area'', ''new_acquisition_mode'', ''qty''] \<subseteq> set (cols iqr_example)"
  by (simp add: iqr_example_def labelled_cols_def grouped_cols_def)

lemma float64_exact_group:
  "\<forall>r \<in> set rs. \<bar>qty r\<bar> < 2 ^ 40 \<Longrightarrow> float64_exact (map qty (filter P rs))"
  by (simp add: float64_exact_def list_all_iff)

text \<open>Within the bound the method iqr is the exact rule on every group.\<close>

lemma detect_outlier_iqr_exact:
  assumes "\<forall>r \<in> set (rows df). \<bar>qty r\<bar> < 2 ^ 40"
  shows "detect_outlier ext df ''iqr'' = groupby_apply (\<lambda>qs. Inr (detect_outliers_iqr qs)) df"
proof -
  have "\<And>g. float64_exact (map qty (filter (\<lambda>r. outlier_key r = g) (rows df)))"
    using assms by (rule float64_exact_group)
  then show ?thesis
    by (simp add: detect_outlier_def groupby_apply_def Let_def split: list.splits)
qed

text \<open>
  The quartiles written out: with \<open>k\<close> one less than the number of values, the first
  quartile lies \<open>k mod 4\<close> quarters of the way from the sorted value at \<open>k div 4\<close> to the
  next one, and the third quartile likewise for \<open>3 k\<close>.
\<close>

lemma floor_quarters: "\<lfloor>(of_nat k :: rat) / 4\<rfloor> = int (k div 4)"
  using floor_divide_of_nat_eq [of k 4, where ?'a = rat] by simp

lemma frac_quarters: "(of_nat k :: rat) / 4 - of_int (int (k div 4)) = of_nat (k mod 4) / 4"
proof -
  have "k = 4 * (k div 4) + k mod 4" by simp
  then have "(of_nat k :: rat) = 4 * of_nat (k div 4) + of_nat (k mod 4)"
    by (metis of_nat_add of_nat_mult of_nat_numeral)
  then show ?thesis by (simp add: field_simps)
qed

lemma quantile_quarters:
  assumes "xs \<noteq> []"
  shows "quantile xs (1 / 4) =
           (let s = sort xs; k = length xs - 1
            in of_int (s ! (k div 4))
               + (of_int (s ! min (k div 4 + 1) (length xs - 1)) - of_int (s ! (k div 4)))
                 * (of_nat (k mod 4) / 4))"
    and "quantile xs (3 / 4) =
           (let s = sort xs; k = 3 * (length xs - 1)
            in of_int (s ! (k div 4))
               + (of_int (s ! min (k div 4 + 1) (length xs - 1)) - of_int (s ! (k div 4)))
                 * (of_nat (k mod 4) / 4))"
proof -
  have 1: "of_nat (length xs - 1) * (1 / 4 :: rat) = of_nat (length xs - 1) / 4"
    by simp
  have 3: "of_nat (length xs - 1) * (3 / 4 :: rat) = of_nat (3 * (length xs - 1)) / 4"
    by simp
  show "quantile xs (1 / 4) =
           (let s = sort xs; k = length xs - 1
            in of_int (s ! (k div 4))
               + (of_int (s ! min (k div 4 + 1) (length xs - 1)) - of_int (s ! (k div 4)))
                 * (of_nat (k mod 4) / 4))"
    using assms unfolding quantile_def 1 Let_def floor_quarters frac_quarters by simp
  show "quantile xs (3 / 4) =
           (let s = sort xs; k = 3 * (length xs - 1)
            in of_int (s ! (k div 4))
               + (of_int (s ! min (k div 4 + 1) (length xs - 1)) - of_int (s ! (k div 4)))
                 * (of_nat (k mod 4) / 4))"
    using assms unfolding quantile_def 3 Let_def floor_quarters frac_quarters by simp
qed

lemma iqr_example_detected:
  "\<exists>df'. detect_outlier ext iqr_example ''iqr'' = Inr df' \<and>
         map (\<lambda>r. (qty r, outlier r)) (rows df')
           = [(10, False), (12, False), (11, False), (13, False), (9, False), (100, True)]"
proof -
  have m: "missing [''brand'', ''dedalo_area'', ''new_acquisition_mode''] iqr_example = []"
    "missing [''qty''] iqr_example = []"
    using iqr_example_cols by (simp_all add: missing_Nil_iff)
  have k: "remdups (map outlier_key (rows iqr_example)) = [(''B1'', ''A1'', ''REPLENISHMENT'')]"
    by (simp add: iqr_example_def outlier_key_def order_row_def)
  have g: "filter (\<lambda>r. outlier_key r = (''B1'', ''A1'', ''REPLENISHMENT'')) (rows iqr_example)
      = rows iqr_example"
    by (simp add: iqr_example_def outlier_key_def order_row_def)
  have q: "map qty (rows iqr_example) = [10, 12, 11, 13, 9, 100]"
    by (simp add: iqr_example_def order_row_def)
  have n: "rows iqr_example \<noteq> []" "length (rows iqr_example) = 6"
    by (simp_all add: iqr_example_def)
  have b: "\<forall>r \<in> set (rows iqr_example). \<bar>qty r\<bar> < 2 ^ 40"
    by (simp add: iqr_example_def order_row_def)
  have "groupby_apply (\<lambda>qs. Inr (detect_outliers_iqr qs)) iqr_example =
      Inr \<lparr>cols = add_col ''outlier'' (cols iqr_example),
           rows = map2 (\<lambda>r b. r\<lparr>outlier := b\<rparr>) (rows iqr_example)
                    [False, False, False, False, False, True]\<rparr>"
    unfolding groupby_apply_def m k
    by (simp add: n g q iqr_example_flags)
  then show ?thesis
    by (simp add: detect_outlier_iqr_exact [OF b]) (simp add: iqr_example_def order_row_def)
qed

text \<open>
  Claim C9. With the method \<open>iqr\<close>, on a table with rows that has the columns read and
  quantities below 2^40 in absolute value (where the float64 arithmetic of the code is
  exact), \<open>detect_outlier\<close> returns the rows of the table (each once) with the outlier cell
  set exactly when the quantity lies outside [max(2, Q1 - 1.5 IQR), Q3 + 1.5 IQR], Q1 and Q3
  being the quartiles of the quantities of the rows with the same brand, dedalo\_area and
  new\_acquisition\_mode, and IQR = Q3 - Q1. The quartiles interpolate linearly between
  the sorted quantities. For one peer group with the quantities 10, 12, 11, 13, 9, 100 the
  quartiles are 10.25 and 12.75 and only the row with 100 is flagged.
\<close>

theorem detect_outlier_iqr_bounds:
  "(set [''brand'', ''dedalo_area'', ''new_acquisition_mode'', ''qty''] \<subseteq> set (cols df) \<and>
    rows df \<noteq> [] \<and> (\<forall>r \<in> set (rows df). \<bar>qty r\<bar> < 2 ^ 40) \<longrightarrow>
    (\<exists>df'. detect_outlier ext df ''iqr'' = Inr df' \<and>
       mset (rows df') = mset (map (\<lambda>r. r\<lparr>outlier :=
          (let peers = map qty (filter (\<lambda>r'. brand r' = brand r \<and>
                                               dedalo_area r' = dedalo_area r \<and>
                                               new_acquisition_mode r' = new_acquisition_mode r)
                                      (rows df));
               Q1 = quantile peers (1 / 4); Q3 = quantile peers (3 / 4); IQR = Q3 - Q1
           in \<not> (max 2 (Q1 - (3 / 2) * IQR) \<le> of_int (qty r)
                 \<and> of_int (qty r) \<le> Q3 + (3 / 2) * IQR))\<rparr>) (rows df)))) \<and>
   (xs \<noteq> [] \<longrightarrow>
      quantile xs (1 / 4) =
        (let s = sort xs; k = length xs - 1
         in of_int (s ! (k div 4))
            + (of_int (s ! min (k div 4 + 1) (length xs - 1)) - of_int (s ! (k div 4)))
              * (of_nat (k mod 4) / 4)) \<and>
      quantile xs (3 / 4) =
        (let s = sort xs; k = 3 * (length xs - 1)
         in of_int (s ! (k div 4))
            + (of_int (s ! min (k div 4 + 1) (length xs - 1)) - of_int (s ! (k div 4)))
              * (of_nat (k mod 4) / 4))) \<and>
   quantile [10, 12, 11, 13, 9, 100] (1 / 4) = 41 / 4 \<and>
   quantile [10, 12, 11, 13, 9, 100] (3 / 4) = 51 / 4 \<and>
   (\<exists>df'. detect_outlier ext iqr_example ''iqr'' = Inr df' \<and>
      map (\<lambda>r. (qty r, outlier r)) (rows df')
        = [(10, False), (12, False), (11, False), (13, False), (9, False), (100, True)])"
proof (intro conjI impI)
  let ?F = "\<lambda>r. r\<lparr>outlier :=
          (let peers = map qty (filter (\<lambda>r'. outlier_key r' = outlier_key r) (rows df));
               Q1 = quantile peers (1 / 4); Q3 = quantile peers (3 / 4); IQR = Q3 - Q1
           in \<not> (max 2 (Q1 - (3 / 2) * IQR) \<le> of_int (qty r)
                 \<and> of_int (qty r) \<le> Q3 + (3 / 2) * IQR))\<rparr>"
  let ?G = "\<lambda>r. r\<lparr>outlier :=
          (let peers = map qty (filter (\<lambda>r'. brand r' = brand r \<and>
                                               dedalo_area r' = dedalo_area r \<and>
                                               new_acquisition_mode r' = new_acquisition_mode r)
                                      (rows df));
               Q1 = quantile peers (1 / 4); Q3 = quantile peers (3 / 4); IQR = Q3 - Q1
           in \<not> (max 2 (Q1 - (3 / 2) * IQR) \<le> of_int (qty r)
                 \<and> of_int (qty r) \<le> Q3 + (3 / 2) * IQR))\<rparr>"
  let ?gs = "remdups (map outlier_key (rows df))"
  assume a: "set [''brand'', ''dedalo_area'', ''new_acquisition_mode'', ''qty''] \<subseteq> set (cols df) \<and>
    rows df \<noteq> [] \<and> (\<forall>r \<in> set (rows df). \<bar>qty r\<bar> < 2 ^ 40)"
  then have e: "detect_outlier ext df ''iqr''
      = groupby_apply (\<lambda>qs. Inr (detect_outliers_iqr qs)) df"
    by (intro detect_outlier_iqr_exact) simp
  have r: "detect_outlier ext df ''iqr'' =
      Inr \<lparr>cols = add_col ''outlier'' (cols df),
           rows = concat (map (\<lambda>g. map ?F (filter (\<lambda>r. outlier_key r = g) (rows df))) ?gs)\<rparr>"
    unfolding e using a groupby_apply_iqr [of df] by simp
  have FG: "?F = ?G"
    by (simp add: outlier_key_def)
  have "concat (map (\<lambda>g. map ?F (filter (\<lambda>r. outlier_key r = g) (rows df))) ?gs)
      = map ?F (concat (map (\<lambda>g. filter (\<lambda>r. outlier_key r = g) (rows df)) ?gs))"
    by (simp add: map_concat o_def)
  moreover have "mset (concat (map (\<lambda>g. filter (\<lambda>r. outlier_key r = g) (rows df)) ?gs))
      = mset (rows df)"
    using mset_groups [of ?gs outlier_key "rows df"] by (simp add: mset_concat o_def)
  ultimately have "mset (concat (map (\<lambda>g. map ?F (filter (\<lambda>r. outlier_key r = g) (rows df))) ?gs))
      = mset (map ?F (rows df))"
    by (simp only: mset_map)
  with r have "\<exists>df'. detect_outlier ext df ''iqr'' = Inr df' \<and> mset (rows df') = mset (map ?F (rows df))"
    by simp
  then show "\<exists>df'. detect_outlier ext df ''iqr'' = Inr df' \<and> mset (rows df') = mset (map ?G (rows df))"
    unfolding FG .
next
  assume "xs \<noteq> []"
  then show "quantile xs (1 / 4) =
        (let s = sort xs; k = length xs - 1
         in of_int (s ! (k div 4))
            + (of_int (s ! min (k div 4 + 1) (length xs - 1)) - of_int (s ! (k div 4)))
              * (of_nat (k mod 4) / 4))"
    by (rule quantile_quarters)
next
  assume "xs \<noteq> []"
  then show "quantile xs (3 / 4) =
        (let s = sort xs; k = 3 * (length xs - 1)
         in of_int (s ! (k div 4))
            + (of_int (s ! min (k div 4 + 1) (length xs - 1)) - of_int (s ! (k div 4)))
              * (of_nat (k mod 4) / 4))"
    by (rule quantile_quarters)
next
  show "quantile [10, 12, 11, 13, 9, 100] (1 / 4) = 41 / 4"
    "quantile [10, 12, 11, 13, 9, 100] (3 / 4) = 51 / 4"
    using iqr_example_quartiles by simp_all
next
  show "\<exists>df'. detect_outlier ext iqr_example ''iqr'' = Inr df' \<and>
      map (\<lambda>r. (qty r, outlier r)) (rows df')
        = [(10, False), (12, False), (11, False), (13, False), (9, False), (100, True)]"
    by (rule iqr_example_detected)
qed

theorem detect_outlier_iqr_bounds_witness:
  "list_all (\<lambda>r. \<bar>qty r\<bar> < 2 ^ 40) (rows iqr_example) \<and>
   (\<exists>df'. detect_outlier (\<lambda>m qs. Inl TypeError) iqr_example ''iqr'' = Inr df' \<and>
         length (rows df') = 6 \<and>
         map (\<lambda>r. (qty r, outlier r)) (rows df')
           = [(10, False), (12, False), (11, False), (13, False), (9, False), (100, True)])"
proof -
  have n: "rows iqr_example \<noteq> []" by (simp add: iqr_example_def)
  have b: "list_all (\<lambda>r. \<bar>qty r\<bar> < 2 ^ 40) (rows iqr_example)"
    by (simp add: iqr_example_def order_row_def)
  then have b': "\<forall>r \<in> set (rows iqr_example). \<bar>qty r\<bar> < 2 ^ 40"
    by (simp add: list_all_iff)
  from detect_outlier_iqr_bounds [THEN conjunct1, of iqr_example "\<lambda>m qs. Inl TypeError"]
    iqr_example_cols n b'
  obtain df' where d: "detect_outlier (\<lambda>m qs. Inl TypeError) iqr_example ''iqr'' = Inr df'"
    and m: "size (mset (rows df')) = size (mset (rows iqr_example))"
    by (metis (no_types, lifting) size_mset length_map)
  from m have l: "length (rows df') = 6" by (simp add: iqr_example_def)
  from d iqr_example_detected [of "\<lambda>m qs. Inl TypeError"]
  have v: "map (\<lambda>r. (qty r, outlier r)) (rows df')
           = [(10, False), (12, False), (11, False), (13, False), (9, False), (100, True)]"
    by auto
  show ?thesis
  proof (intro conjI exI [of _ df'])
    show "list_all (\<lambda>r. \<bar>qty r\<bar> < 2 ^ 40) (rows iqr_example)" by fact
    show "detect_outlier (\<lambda>m qs. Inl TypeError) iqr_example ''iqr'' = Inr df'" by fact
    show "length (rows df') = 6" by fact
    show "map (\<lambda>r. (qty r, outlier r)) (rows df')
           = [(10, False), (12, False), (11, False), (13, False), (9, False), (100, True)]" by fact
  qed
qed

section \<open>Properties of first-order labelling\<close>

lemmas date_defs = to_datetime_def parse_yearweek_def calc_julian_from_W_def jan1_ordinal_def
  days_before_year_def weekday_def

text \<open>
  On a six-digit year-week with a week up to 53 and a year from 1678 to 2261 the
  conversion returns a date.
\<close>

lemma to_datetime_total:
  assumes "1678 \<le> yw div 100" and "yw div 100 \<le> 2261" and "yw mod 100 \<le> 53"
  shows "\<exists>d. to_datetime yw = Inr d"
proof -
  define y where "y = yw div 100"
  define k where "k = yw mod 100"
  have yw: "yw = y * 100 + k" by (simp add: y_def k_def)
  have k: "0 \<le> k" "k \<le> 53" using assms(3) by (simp_all add: k_def)
  have y: "1678 \<le> y" "y \<le> 2261" using assms(1,2) by (simp_all add: y_def)
  have six: "100000 \<le> yw" "yw \<le> 999999" using yw k y by linarith+
  have p: "parse_yearweek yw = Inr (y, k)"
    using six assms(3) by (simp add: parse_yearweek_def y_def k_def)
  have w: "0 \<le> weekday (jan1_ordinal y)" "weekday (jan1_ordinal y) \<le> 6"
    by (simp_all add: weekday_def)
  have m: "0 \<le> (7 - weekday (jan1_ordinal y)) mod 7" "(7 - weekday (jan1_ordinal y)) mod 7 \<le> 6"
    by simp_all
  have j: "1 \<le> calc_julian_from_W y k 6" "calc_julian_from_W y k 6 \<le> 377"
    using w m k by (auto simp: calc_julian_from_W_def Let_def)
  have d1: "(y - 1) div 4 \<ge> 419" "(y - 1) div 4 \<le> 565" using y by linarith+
  have d2: "(y - 1) div 100 \<ge> 16" "(y - 1) div 100 \<le> 22" using y by linarith+
  have d3: "(y - 1) div 400 \<ge> 4" "(y - 1) div 400 \<le> 5" using y by linarith+
  have o: "612412 \<le> jan1_ordinal y" "jan1_ordinal y + 376 \<le> 825914"
    using y d1 d2 d3 by (simp_all add: jan1_ordinal_def days_before_year_def)
  show ?thesis
    using p j o by (simp add: to_datetime_def Let_def)
qed


lemma sequence_Inr_cong:
  "(\<And>x. x \<in> set xs \<Longrightarrow> f x = Inr (h x)) \<Longrightarrow> sequence (map f xs) = Inr (map h xs)"
  by (induction xs) simp_all

lemma first_dt_Min:
  assumes "r \<in> set rs"
  shows "min_list (map snd (filter (\<lambda>(r', dt'). key r' = key r) (zip rs (map date rs))))
           = Min (date ` {r' \<in> set rs. key r' = key r})"
proof -
  have "map snd (filter (\<lambda>(r', dt'). key r' = key r) (zip rs (map date rs)))
      = map date (filter (\<lambda>r'. key r' = key r) rs)"
    by (induction rs) auto
  moreover have "map date (filter (\<lambda>r'. key r' = key r) rs) \<noteq> []"
    using assms by (auto simp: filter_empty_conv)
  ultimately show ?thesis
    by (simp add: min_list_Min)
qed

lemma first_order_example_dates:
  "map (\<lambda>r. to_datetime (creation_yearweek r)) (rows first_order_example)
      = [Inr 737436, Inr 737443, Inr 737464]"
  by (simp add: first_order_example_def order_row_def date_defs Let_def)

lemma first_order_example_labelled:
  "\<exists>df'. label_first_order first_order_example (Some 2) = Inr df' \<and>
         map (\<lambda>r. (creation_yearweek r, first_order r, new_acquisition_mode r)) (rows df')
           = [(202001, True, ''REP FIRST ORDER''), (202002, True, ''REP FIRST ORDER''),
              (202005, False, ''REP REPLENISHMENT'')]"
proof -
  have m: "missing [''creation_yearweek''] first_order_example = []"
     "missing [''release'', ''brand'', ''customer'', ''dedalo_area'',
                    ''acquisition_mode_group''] first_order_example = []"
    by (simp_all add: missing_def first_order_example_def grouped_cols_def)
  show ?thesis
    unfolding label_first_order_def m first_order_example_dates
    by (simp add: first_order_example_def order_row_def first_order_key_def week_diff_lt_def
        select_acquisition_mode_def Let_def)
qed

text \<open>
  Claim C4 as stated fails where a row lies exactly on the window: with the weeks 202001
  and 202003 in one group and a window of 2, the second row is two weeks after the first,
  hence within two weeks of it, and is not a first order.
\<close>

theorem label_first_order_within_counterexample:
  "\<exists>df'. label_first_order first_order_boundary (Some 2) = Inr df' \<and>
         map (\<lambda>r. to_datetime (creation_yearweek r)) (rows first_order_boundary)
           = [Inr 737436, Inr 737450] \<and>
         (737450 :: int) - 737436 = 7 * 2 \<and>
         map first_order (rows df') = [True, False]"
proof -
  have d: "map (\<lambda>r. to_datetime (creation_yearweek r)) (rows first_order_boundary)
      = [Inr 737436, Inr 737450]"
    by (simp add: first_order_boundary_def order_row_def date_defs Let_def)
  have m: "missing [''creation_yearweek''] first_order_boundary = []"
     "missing [''release'', ''brand'', ''customer'', ''dedalo_area'',
                    ''acquisition_mode_group''] first_order_boundary = []"
    by (simp_all add: missing_def first_order_boundary_def grouped_cols_def)
  have "\<exists>df'. label_first_order first_order_boundary (Some 2) = Inr df' \<and>
         map first_order (rows df') = [True, False]"
    unfolding label_first_order_def m d
    by (simp add: first_order_boundary_def order_row_def first_order_key_def week_diff_lt_def
        select_acquisition_mode_def Let_def)
  with d show ?thesis by simp
qed

text \<open>
  Claim C4, amended. Let \<open>date\<close> give every row the calendar date its creation\_yearweek
  converts to (the Sunday of that week). Then \<open>label_first_order\<close> with a window of \<open>w\<close>
  weeks returns the rows in place, with first\_order set exactly when the row's date is
  less than \<open>w\<close> weeks (7 w days) after the earliest date among the rows with its release,
  brand, customer and dedalo\_area; a row exactly \<open>w\<close> weeks after that date is not a
  first order. In the group with the weeks 202001, 202002, 202005, which convert to
  2020-01-12, 2020-01-19 and 2020-02-09, and a window of 2, the first two rows are first
  orders and the third is not.
\<close>

theorem label_first_order_window:
  "(set [''creation_yearweek'', ''release'', ''brand'', ''customer'', ''dedalo_area'',
         ''acquisition_mode_group''] \<subseteq> set (cols df) \<and>
    (\<forall>r \<in> set (rows df). to_datetime (creation_yearweek r) = Inr (date r)) \<longrightarrow>
    (\<exists>df'. label_first_order df (Some w) = Inr df' \<and>
       length (rows df') = length (rows df) \<and>
       (\<forall>i < length (rows df).
          first_order (rows df' ! i) =
            (date (rows df ! i)
               - Min (date ` {r \<in> set (rows df).
                       release r = release (rows df ! i) \<and> brand r = brand (rows df ! i) \<and>
                       customer r = customer (rows df ! i) \<and>
                       dedalo_area r = dedalo_area (rows df ! i)})
             < 7 * w) \<and>
          rows df' ! i = (rows df ! i)\<lparr>first_order := first_order (rows df' ! i),
            new_acquisition_mode := select_acquisition_mode (first_order (rows df' ! i))
                                      (acquisition_mode_group (rows df ! i))\<rparr>))) \<and>
   map (\<lambda>r. to_datetime (creation_yearweek r)) (rows first_order_example)
     = [Inr 737436, Inr 737443, Inr 737464] \<and>
   (\<exists>df'. label_first_order first_order_example (Some 2) = Inr df' \<and>
      map (\<lambda>r. (creation_yearweek r, first_order r, new_acquisition_mode r)) (rows df')
        = [(202001, True, ''REP FIRST ORDER''), (202002, True, ''REP FIRST ORDER''),
           (202005, False, ''REP REPLENISHMENT'')])"
proof (intro conjI impI)
  assume a: "set [''creation_yearweek'', ''release'', ''brand'', ''customer'', ''dedalo_area'',
         ''acquisition_mode_group''] \<subseteq> set (cols df) \<and>
    (\<forall>r \<in> set (rows df). to_datetime (creation_yearweek r) = Inr (date r))"
  then have m: "missing [''creation_yearweek''] df = []"
     "missing [''release'', ''brand'', ''customer'', ''dedalo_area'',
                    ''acquisition_mode_group''] df = []"
    by (simp_all add: missing_Nil_iff)
  from a have d: "sequence (map (\<lambda>r. to_datetime (creation_yearweek r)) (rows df))
      = Inr (map date (rows df))"
    by (intro sequence_Inr_cong) simp
  let ?fo = "\<lambda>r. date r - Min (date ` {r' \<in> set (rows df).
                       release r' = release r \<and> brand r' = brand r \<and>
                       customer r' = customer r \<and> dedalo_area r' = dedalo_area r})
                 < 7 * w"
  have z: "zip (rows df) (map date (rows df)) = map (\<lambda>r. (r, date r)) (rows df)"
    by (simp add: zip_map2 zip_same_conv_map)
  have k: "\<And>r. {r' \<in> set (rows df). first_order_key r' = first_order_key r}
      = {r' \<in> set (rows df). release r' = release r \<and> brand r' = brand r \<and>
                       customer r' = customer r \<and> dedalo_area r' = dedalo_area r}"
    by (auto simp: first_order_key_def)
  have "label_first_order df (Some w) =
      Inr \<lparr>cols = add_col ''new_acquisition_mode''
                   (drop_cols [''creation_yearweek_dt'', ''first_creation_yearweek_dt'', ''week_diff'']
                     (add_col ''first_order'' (add_col ''week_diff''
                       (add_col ''first_creation_yearweek_dt''
                         (add_col ''creation_yearweek_dt'' (cols df)))))),
            rows = map (\<lambda>r. r\<lparr>first_order := ?fo r,
                   new_acquisition_mode := select_acquisition_mode (?fo r) (acquisition_mode_group r)\<rparr>)
                 (rows df)\<rparr>"
    unfolding label_first_order_def m d
    by (simp add: z o_def Let_def week_diff_lt_def
        first_dt_Min [of _ "rows df" first_order_key date, unfolded z k])
  then show "\<exists>df'. label_first_order df (Some w) = Inr df' \<and>
       length (rows df') = length (rows df) \<and>
       (\<forall>i < length (rows df).
          first_order (rows df' ! i) = ?fo (rows df ! i) \<and>
          rows df' ! i = (rows df ! i)\<lparr>first_order := first_order (rows df' ! i),
            new_acquisition_mode := select_acquisition_mode (first_order (rows df' ! i))
                                      (acquisition_mode_group (rows df ! i))\<rparr>)"
    by simp
next
  show "map (\<lambda>r. to_datetime (creation_yearweek r)) (rows first_order_example)
     = [Inr 737436, Inr 737443, Inr 737464]"
    by (rule first_order_example_dates)
next
  show "\<exists>df'. label_first_order first_order_example (Some 2) = Inr df' \<and>
      map (\<lambda>r. (creation_yearweek r, first_order r, new_acquisition_mode r)) (rows df')
        = [(202001, True, ''REP FIRST ORDER''), (202002, True, ''REP FIRST ORDER''),
           (202005, False, ''REP REPLENISHMENT'')]"
    by (rule first_order_example_labelled)
qed

theorem label_first_order_window_witness:
  "map (\<lambda>r. to_datetime (creation_yearweek r)) (rows first_order_example)
     = map (\<lambda>r. Inr (737436 + 7 * (creation_yearweek r - 202001))) (rows first_order_example) \<and>
   (\<exists>df'. label_first_order first_order_example (Some 2) = Inr df' \<and>
          length (rows df') = 3 \<and>
          map first_order (rows df') = [True, True, False])"
proof -
  let ?date = "\<lambda>r. 737436 + 7 * (creation_yearweek r - 202001)"
  have d: "map (\<lambda>r. to_datetime (creation_yearweek r)) (rows first_order_example)
     = map (\<lambda>r. Inr (?date r)) (rows first_order_example)"
    by (simp add: first_order_example_def order_row_def date_defs Let_def)
  then have h: "\<forall>r \<in> set (rows first_order_example). to_datetime (creation_yearweek r) = Inr (?date r)"
    by simp
  have c: "set [''creation_yearweek'', ''release'', ''brand'', ''customer'', ''dedalo_area'',
         ''acquisition_mode_group''] \<subseteq> set (cols first_order_example)"
    by (simp add: first_order_example_def grouped_cols_def)
  from label_first_order_window [THEN conjunct1, of first_order_example ?date 2] c h
  obtain df' where l: "label_first_order first_order_example (Some 2) = Inr df'"
    and n: "length (rows df') = length (rows first_order_example)"
    by blast
  from n have n3: "length (rows df') = 3" by (simp add: first_order_example_def)
  from l first_order_example_labelled
  have "map (\<lambda>r. (creation_yearweek r, first_order r, new_acquisition_mode r)) (rows df')
           = [(202001, True, ''REP FIRST ORDER''), (202002, True, ''REP FIRST ORDER''),
              (202005, False, ''REP REPLENISHMENT'')]"
    by auto
  then have f: "map first_order (rows df') = [True, True, False]"
    by (auto simp: map_eq_Cons_conv)
  show ?thesis
  proof (intro conjI exI [of _ df'])
    show "map (\<lambda>r. to_datetime (creation_yearweek r)) (rows first_order_example)
     = map (\<lambda>r. Inr (?date r)) (rows first_order_example)" by fact
    show "label_first_order first_order_example (Some 2) = Inr df'" by fact
    show "length (rows df') = 3" by fact
    show "map first_order (rows df') = [True, True, False]" by fact
  qed
qed

section \<open>Properties of the common year-week\<close>

lemma digit_val_range: "is_digit c \<Longrightarrow> 0 \<le> digit_val c \<and> digit_val c \<le> 9"
  by (auto simp: is_digit_def digit_val_def)

lemma digit_less: "c < d \<longleftrightarrow> digit_val c < digit_val d"
  by (simp add: digit_val_def less_char_def)

lemma digit_eq: "c = d \<longleftrightarrow> digit_val c = digit_val d"
  by (simp add: digit_val_def)

lemma digit_le: "c \<le> d \<longleftrightarrow> digit_val c \<le> digit_val d"
  by (simp add: digit_val_def less_eq_char_def)

lemma is_digit_not_space: "is_digit c \<Longrightarrow> \<not> is_space c"
  by (auto simp: is_digit_def is_space_def)

lemma is_digit_not_sign: "is_digit c \<Longrightarrow> c \<noteq> CHR ''-'' \<and> c \<noteq> CHR ''+'' \<and> c \<noteq> CHR ''_''"
  by (auto simp: is_digit_def)

lemma four_chars: "length s = 4 \<Longrightarrow> \<exists>a b c d. s = [a, b, c, d]"
  by (auto simp: numeral_eq_Suc length_Suc_conv)

text \<open>A string of four digits reads as the number it writes.\<close>

lemma py_int_four_digits:
  assumes "length s = 4" and "list_all is_digit s"
  shows "py_int s = Inr (dec_val s)"
proof -
  from assms(1) obtain a b c d where s: "s = [a, b, c, d]"
    using four_chars by blast
  with assms(2) have dg: "is_digit a" "is_digit b" "is_digit c" "is_digit d" by simp_all
  then have "strip s = s"
    by (simp add: strip_def s is_digit_not_space)
  moreover have "digits_ok s"
    using dg by (simp add: s is_digit_not_sign)
  ultimately show ?thesis
    using dg(1) by (simp add: py_int_def s is_digit_not_sign)
qed

text \<open>On strings of four digits the order of strings is the order of the numbers.\<close>

lemma dec_val_le_iff:
  assumes "length s = 4" and "list_all is_digit s" and "length t = 4" and "list_all is_digit t"
  shows "s \<le> t \<longleftrightarrow> dec_val s \<le> dec_val t"
proof -
  from assms(1) obtain a b c d where s: "s = [a, b, c, d]"
    using four_chars by blast
  from assms(3) obtain a' b' c' d' where t: "t = [a', b', c', d']"
    using four_chars by blast
  from assms(2) s have ds: "is_digit a" "is_digit b" "is_digit c" "is_digit d" by simp_all
  from assms(4) t have dt: "is_digit a'" "is_digit b'" "is_digit c'" "is_digit d'" by simp_all
  note r = ds [THEN digit_val_range] dt [THEN digit_val_range]
  have vs: "dec_val s = 1000 * digit_val a + 100 * digit_val b + 10 * digit_val c + digit_val d"
    using ds by (simp add: dec_val_def s)
  have vt: "dec_val t = 1000 * digit_val a' + 100 * digit_val b' + 10 * digit_val c' + digit_val d'"
    using dt by (simp add: dec_val_def t)
  have "s \<le> t \<longleftrightarrow>
      digit_val a < digit_val a' \<or> digit_val a = digit_val a' \<and>
        (digit_val b < digit_val b' \<or> digit_val b = digit_val b' \<and>
          (digit_val c < digit_val c' \<or> digit_val c = digit_val c' \<and> digit_val d \<le> digit_val d'))"
  proof -
    have "s \<le> t \<longleftrightarrow> a < a' \<or> a = a' \<and> (b < b' \<or> b = b' \<and> (c < c' \<or> c = c' \<and> d \<le> d'))"
      unfolding s t by (auto simp: Cons_le_Cons)
    then show ?thesis
      by (simp only: digit_less digit_le digit_eq [of a] digit_eq [of b] digit_eq [of c])
  qed
  also have "\<dots> \<longleftrightarrow> dec_val s \<le> dec_val t"
    unfolding vs vt using r by auto
  finally show ?thesis .
qed


lemma fold_max_four_digits:
  assumes "\<forall>s \<in> set (y # ys). length s = 4 \<and> list_all is_digit s"
  shows "length (fold max ys y) = 4 \<and> list_all is_digit (fold max ys y) \<and>
         dec_val (fold max ys y) = fold max (map dec_val ys) (dec_val y)"
  using assms
proof (induction ys arbitrary: y)
  case Nil
  then show ?case by simp
next
  case (Cons z zs)
  then have z: "length z = 4" "list_all is_digit z" and y: "length y = 4" "list_all is_digit y"
    by simp_all
  have m: "dec_val (max z y) = max (dec_val z) (dec_val y)"
    using dec_val_le_iff [OF z y] by (simp add: max_def)
  have "\<forall>s \<in> set (max z y # zs). length s = 4 \<and> list_all is_digit s"
    using Cons.prems by (simp add: max_def)
  from Cons.IH [OF this] m show ?case by simp
qed

lemma in_add_col: "c \<in> set (add_col d cs) \<longleftrightarrow> c = d \<or> c \<in> set cs"
  by (auto simp: add_col_def)

lemma in_drop_cols: "c \<in> set (drop_cols names cs) \<longleftrightarrow> c \<in> set cs \<and> c \<notin> set names"
  by (simp add: drop_cols_def)

text \<open>
  Claim C5. On a table with rows that has no common\_creation\_yearweek column and whose
  releases all begin with four digits, \<open>create_common_creation_yearweek\<close> returns the rows
  in place with common\_creation\_yearweek = creation\_yearweek + (max\_year - year) * 100
  and the same shift on planned\_delivery\_yearweek, where year is the number written by
  the first four characters of the row's release and max\_year the greatest year of the
  table; both columns are then present, and the function applied to the result returns
  the result unchanged.
\<close>

theorem create_common_creation_yearweek_shift:
  "''common_creation_yearweek'' \<notin> set (cols df) \<and>
   set [''release'', ''creation_yearweek'', ''planned_delivery_yearweek''] \<subseteq> set (cols df) \<and>
   rows df \<noteq> [] \<and>
   (\<forall>r \<in> set (rows df). 4 \<le> length (release r) \<and> list_all is_digit (year_release r)) \<longrightarrow>
   (\<exists>df'. create_common_creation_yearweek df = Inr df' \<and>
      ''common_creation_yearweek'' \<in> set (cols df') \<and>
      ''common_planned_delivery_yearweek'' \<in> set (cols df') \<and>
      length (rows df') = length (rows df) \<and>
      (\<forall>i < length (rows df).
         rows df' ! i = (rows df ! i)
           \<lparr>common_creation_yearweek := creation_yearweek (rows df ! i)
              + (Max ((\<lambda>r. dec_val (year_release r)) ` set (rows df))
                 - dec_val (year_release (rows df ! i))) * 100,
            common_planned_delivery_yearweek := planned_delivery_yearweek (rows df ! i)
              + (Max ((\<lambda>r. dec_val (year_release r)) ` set (rows df))
                 - dec_val (year_release (rows df ! i))) * 100\<rparr>) \<and>
      create_common_creation_yearweek df' = Inr df')"
proof
  assume a: "''common_creation_yearweek'' \<notin> set (cols df) \<and>
   set [''release'', ''creation_yearweek'', ''planned_delivery_yearweek''] \<subseteq> set (cols df) \<and>
   rows df \<noteq> [] \<and>
   (\<forall>r \<in> set (rows df). 4 \<le> length (release r) \<and> list_all is_digit (year_release r))"
  let ?year = "\<lambda>r. dec_val (year_release r)"
  let ?max = "Max (?year ` set (rows df))"
  from a have m: "missing [''release''] df = []"
    "missing [''creation_yearweek'', ''planned_delivery_yearweek''] df = []"
    by (simp_all add: missing_Nil_iff)
  from a have four: "\<forall>r \<in> set (rows df). length (year_release r) = 4 \<and> list_all is_digit (year_release r)"
    by (simp add: year_release_def)
  from a obtain r0 rs where rows: "rows df = r0 # rs"
    by (cases "rows df") auto
  have ys: "map year_release (rows df) = year_release r0 # map year_release rs"
    by (simp add: rows)
  have "\<forall>s \<in> set (year_release r0 # map year_release rs). length s = 4 \<and> list_all is_digit s"
    using four by (simp add: rows)
  from fold_max_four_digits [OF this]
  have f4: "length (fold max (map year_release rs) (year_release r0)) = 4"
    and fd: "list_all is_digit (fold max (map year_release rs) (year_release r0))"
    and fv: "dec_val (fold max (map year_release rs) (year_release r0))
               = fold max (map dec_val (map year_release rs)) (dec_val (year_release r0))"
    by simp_all
  have "?max = Max (set (dec_val (year_release r0) # map dec_val (map year_release rs)))"
    by (simp add: rows image_image)
  also have "\<dots> = fold max (map dec_val (map year_release rs)) (dec_val (year_release r0))"
    by (rule Max.set_eq_fold)
  finally have mx: "py_int (fold max (map year_release rs) (year_release r0)) = Inr ?max"
    using py_int_four_digits [OF f4 fd] fv by simp
  have sq: "sequence (map (\<lambda>r. py_int (year_release r)) (rows df)) = Inr (map ?year (rows df))"
    using four by (intro sequence_Inr_cong) (simp add: py_int_four_digits)
  have z: "zip (rows df) (map ?year (rows df)) = map (\<lambda>r. (r, ?year r)) (rows df)"
    by (simp add: zip_map2 zip_same_conv_map)
  let ?df' = "\<lparr>cols = drop_cols [''year_release'', ''max_year'', ''diff'']
                   (add_col ''common_planned_delivery_yearweek''
                     (add_col ''common_creation_yearweek''
                       (add_col ''diff'' (add_col ''max_year''
                         (add_col ''year_release'' (cols df)))))),
               rows = map (\<lambda>r. r\<lparr>common_creation_yearweek :=
                                    creation_yearweek r + (?max - ?year r) * 100,
                                 common_planned_delivery_yearweek :=
                                    planned_delivery_yearweek r + (?max - ?year r) * 100\<rparr>)
                          (rows df)\<rparr>"
  have r: "create_common_creation_yearweek df = Inr ?df'"
    using a unfolding create_common_creation_yearweek_def m ys
    by (simp add: mx sq z o_def Let_def)
  have c: "''common_creation_yearweek'' \<in> set (cols ?df')"
    "''common_planned_delivery_yearweek'' \<in> set (cols ?df')"
    by (simp_all add: in_add_col in_drop_cols)
  then have i: "create_common_creation_yearweek ?df' = Inr ?df'"
    by (simp add: create_common_creation_yearweek_def)
  show "\<exists>df'. create_common_creation_yearweek df = Inr df' \<and>
      ''common_creation_yearweek'' \<in> set (cols df') \<and>
      ''common_planned_delivery_yearweek'' \<in> set (cols df') \<and>
      length (rows df') = length (rows df) \<and>
      (\<forall>i < length (rows df).
         rows df' ! i = (rows df ! i)
           \<lparr>common_creation_yearweek := creation_yearweek (rows df ! i)
              + (?max - ?year (rows df ! i)) * 100,
            common_planned_delivery_yearweek := planned_delivery_yearweek (rows df ! i)
              + (?max - ?year (rows df ! i)) * 100\<rparr>) \<and>
      create_common_creation_yearweek df' = Inr df'"
    apply (rule exI [of _ ?df'])
    using r c i by simp
qed

lemma common_example_shifted:
  "\<exists>df'. create_common_creation_yearweek common_example = Inr df' \<and>
     map (\<lambda>r. (release r, common_creation_yearweek r, common_planned_delivery_yearweek r)) (rows df')
       = [(''2023A'', 202410, 202410), (''2024A'', 202410, 202410)]"
proof -
  have y: "py_int ''2023'' = Inr 2023" "py_int ''2024'' = Inr 2024"
    by (simp_all add: py_int_def strip_def is_space_def is_digit_def dec_val_def digit_val_def)
  have m: "max ''2024'' ''2023'' = ''2024''"
    by (simp add: max_def)
  show ?thesis
    by (simp add: create_common_creation_yearweek_def common_example_def grouped_cols_def
        missing_def order_row_def year_release_def m y)
qed

theorem create_common_creation_yearweek_shift_witness:
  "''common_creation_yearweek'' \<notin> set (cols common_example) \<and>
   rows common_example \<noteq> [] \<and>
   list_all (\<lambda>r. 4 \<le> length (release r) \<and> list_all is_digit (year_release r)) (rows common_example) \<and>
   (\<exists>df'. create_common_creation_yearweek common_example = Inr df' \<and>
      ''common_creation_yearweek'' \<in> set (cols df') \<and>
      map (\<lambda>r. (release r, common_creation_yearweek r, common_planned_delivery_yearweek r)) (rows df')
        = [(''2023A'', 202410, 202410), (''2024A'', 202410, 202410)] \<and>
      create_common_creation_yearweek df' = Inr df')"
proof -
  have 1: "''common_creation_yearweek'' \<notin> set (cols common_example)"
    by (simp add: common_example_def grouped_cols_def)
  have 2: "set [''release'', ''creation_yearweek'', ''planned_delivery_yearweek'']
      \<subseteq> set (cols common_example)"
    by (simp add: common_example_def grouped_cols_def)
  have 3: "rows common_example \<noteq> []"
    by (simp add: common_example_def)
  have 4: "list_all (\<lambda>r. 4 \<le> length (release r) \<and> list_all is_digit (year_release r))
      (rows common_example)"
    by (simp add: common_example_def order_row_def year_release_def is_digit_def)
  then have 5: "\<forall>r \<in> set (rows common_example).
      4 \<le> length (release r) \<and> list_all is_digit (year_release r)"
    by (simp add: list_all_iff)
  from create_common_creation_yearweek_shift [of common_example] 1 2 3 5
  obtain df' where 6: "create_common_creation_yearweek common_example = Inr df'"
    and 7: "''common_creation_yearweek'' \<in> set (cols df')"
    and 8: "create_common_creation_yearweek df' = Inr df'"
    by blast
  from 6 common_example_shifted
  have 9: "map (\<lambda>r. (release r, common_creation_yearweek r, common_planned_delivery_yearweek r)) (rows df')
       = [(''2023A'', 202410, 202410), (''2024A'', 202410, 202410)]"
    by auto
  show ?thesis
  proof (intro conjI exI [of _ df'])
    show "''common_creation_yearweek'' \<notin> set (cols common_example)" by fact
    show "rows common_example \<noteq> []" by fact
    show "list_all (\<lambda>r. 4 \<le> length (release r) \<and> list_all is_digit (year_release r))
      (rows common_example)" by fact
    show "create_common_creation_yearweek common_example = Inr df'" by fact
    show "''common_creation_yearweek'' \<in> set (cols df')" by fact
    show "map (\<lambda>r. (release r, common_creation_yearweek r, common_planned_delivery_yearweek r)) (rows df')
       = [(''2023A'', 202410, 202410), (''2024A'', 202410, 202410)]" by fact
    show "create_common_creation_yearweek df' = Inr df'" by fact
  qed
qed

section \<open>Properties of the derived flags\<close>

lemma and_then_Inr_iff: "and_then m f = Inr y \<longleftrightarrow> (\<exists>x. m = Inr x \<and> f x = Inr y)"
  by (cases m) (simp_all add: and_then_def)

lemma unless_col_Inr_iff:
  "unless_col c f df = Inr d \<longleftrightarrow> (if c \<in> set (cols df) then d = df else f df = Inr d)"
  by (auto simp: unless_col_def)

lemma set_add_col: "set (add_col c cs) = insert c (set cs)"
  by (auto simp: add_col_def)

lemma set_drop_cols: "set (drop_cols names cs) = set cs - set names"
  by (auto simp: drop_cols_def)

lemma yn_cases: "yn b = ''Y'' \<or> yn b = ''N''"
  by (simp add: yn_def)

lemma sequence_Inr_D: "sequence xs = Inr ys \<Longrightarrow> xs = map Inr ys"
  by (induction xs arbitrary: ys) (auto split: sum.splits)

subsection \<open>What each step does to the columns\<close>

lemma create_comp_cols:
  assumes "create_comp df = Inr d" and "c \<noteq> ''group_id''"
  shows "c \<in> set (cols d) \<longleftrightarrow> c = ''comp'' \<or> c \<in> set (cols df)"
proof -
  from assms(1) have "cols d = drop_cols [''group_id'']
      (add_col ''comp'' (add_col ''group_id'' (cols df)))"
    by (simp add: create_comp_def split: list.splits) auto
  with assms(2) show ?thesis
    by (simp add: set_add_col set_drop_cols)
qed

lemma label_first_order_cols:
  assumes "label_first_order df w = Inr d"
    and "c \<notin> set [''new_acquisition_mode'', ''first_order'', ''creation_yearweek_dt'',
               ''first_creation_yearweek_dt'', ''week_diff'']"
  shows "c \<in> set (cols d) \<longleftrightarrow> c \<in> set (cols df)"
proof -
  from assms(1) have "cols d = add_col ''new_acquisition_mode''
                   (drop_cols [''creation_yearweek_dt'', ''first_creation_yearweek_dt'', ''week_diff'']
                     (add_col ''first_order'' (add_col ''week_diff''
                       (add_col ''first_creation_yearweek_dt''
                         (add_col ''creation_yearweek_dt'' (cols df))))))"
    by (simp add: label_first_order_def split: list.splits sum.splits) auto
  with assms(2) show ?thesis
    by (simp add: set_add_col set_drop_cols)
qed

lemma create_common_creation_yearweek_Inr:
  assumes "create_common_creation_yearweek df = Inr d"
    and "''common_creation_yearweek'' \<notin> set (cols df)"
  obtains max_year years where
    "d = \<lparr>cols = drop_cols [''year_release'', ''max_year'', ''diff'']
                   (add_col ''common_planned_delivery_yearweek''
                     (add_col ''common_creation_yearweek''
                       (add_col ''diff'' (add_col ''max_year''
                         (add_col ''year_release'' (cols df)))))),
          rows = map (\<lambda>(r, yr).
                        let diff = max_year - yr
                        in r\<lparr>common_creation_yearweek := creation_yearweek r + diff * 100,
                             common_planned_delivery_yearweek :=
                               planned_delivery_yearweek r + diff * 100\<rparr>)
                      (zip (rows df) years)\<rparr>"
  using assms
  by (simp add: create_common_creation_yearweek_def split: list.splits sum.splits) blast

lemma create_common_creation_yearweek_cols:
  assumes "create_common_creation_yearweek df = Inr d"
    and "c \<notin> set [''common_planned_delivery_yearweek'', ''common_creation_yearweek'',
               ''year_release'', ''max_year'', ''diff'']"
  shows "c \<in> set (cols d) \<longleftrightarrow> c \<in> set (cols df)"
proof (cases "''common_creation_yearweek'' \<in> set (cols df)")
  case True
  with assms(1) show ?thesis by (simp add: create_common_creation_yearweek_def)
next
  case False
  from create_common_creation_yearweek_Inr [OF assms(1) False]
  obtain max_year years where
    "d = \<lparr>cols = drop_cols [''year_release'', ''max_year'', ''diff'']
                   (add_col ''common_planned_delivery_yearweek''
                     (add_col ''common_creation_yearweek''
                       (add_col ''diff'' (add_col ''max_year''
                         (add_col ''year_release'' (cols df)))))),
          rows = map (\<lambda>(r, yr).
                        let diff = max_year - yr
                        in r\<lparr>common_creation_yearweek := creation_yearweek r + diff * 100,
                             common_planned_delivery_yearweek :=
                               planned_delivery_yearweek r + diff * 100\<rparr>)
                      (zip (rows df) years)\<rparr>" .
  then have "cols d = drop_cols [''year_release'', ''max_year'', ''diff'']
                   (add_col ''common_planned_delivery_yearweek''
                     (add_col ''common_creation_yearweek''
                       (add_col ''diff'' (add_col ''max_year''
                         (add_col ''year_release'' (cols df))))))"
    by simp
  with assms(2) show ?thesis
    by (simp add: set_add_col set_drop_cols)
qed

lemma create_till_today_Inr:
  assumes "create_till_today today df = Inr d"
  obtains d1 where "create_common_creation_yearweek df = Inr d1"
    and "d = \<lparr>cols = add_col ''till_today'' (cols d1),
               rows = map (\<lambda>r. r\<lparr>till_today := yn (common_creation_yearweek r \<le> today)\<rparr>)
                          (rows d1)\<rparr>"
  using assms by (simp add: create_till_today_def split: sum.splits)

lemma create_till_today_cols:
  assumes "create_till_today today df = Inr d"
    and "c \<notin> set [''common_planned_delivery_yearweek'', ''common_creation_yearweek'',
               ''year_release'', ''max_year'', ''diff'', ''till_today'']"
  shows "c \<in> set (cols d) \<longleftrightarrow> c \<in> set (cols df)"
proof -
  from create_till_today_Inr [OF assms(1)] obtain d1 where
    1: "create_common_creation_yearweek df = Inr d1"
    and 2: "d = \<lparr>cols = add_col ''till_today'' (cols d1),
               rows = map (\<lambda>r. r\<lparr>till_today := yn (common_creation_yearweek r \<le> today)\<rparr>)
                          (rows d1)\<rparr>" .
  from assms(2) have "c \<in> set (cols d1) \<longleftrightarrow> c \<in> set (cols df)"
    by (intro create_common_creation_yearweek_cols [OF 1]) simp
  with 2 assms(2) show ?thesis by (simp add: set_add_col)
qed

lemma groupby_apply_Inr:
  assumes "groupby_apply f df = Inr d"
  obtains "rows df = []" and "d = df"
  | groups where "rows df \<noteq> []"
      and "sequence (map (\<lambda>g.
                let grp = filter (\<lambda>r. outlier_key r = g) (rows df)
                in (case f (map qty grp) of
                      Inl e \<Rightarrow> Inl e
                    | Inr flags \<Rightarrow>
                        if length flags = length grp
                        then Inr (map2 (\<lambda>r b. r\<lparr>outlier := b\<rparr>) grp flags)
                        else Inl (ValueError ''Length of values does not match length of index'')))
              (remdups (map outlier_key (rows df)))) = Inr groups"
      and "d = \<lparr>cols = add_col ''outlier'' (cols df), rows = concat groups\<rparr>"
proof (cases "rows df = []")
  case True
  with assms have "d = df"
    by (simp add: groupby_apply_def split: list.splits)
  with True that(1) show ?thesis by blast
next
  case False
  with assms that(2) show ?thesis
    by (simp add: groupby_apply_def split: list.splits sum.splits)
qed

lemma groupby_apply_cols:
  assumes "groupby_apply f df = Inr d" and "c \<noteq> ''outlier''"
  shows "c \<in> set (cols d) \<longleftrightarrow> c \<in> set (cols df)"
  using assms(1)
proof (cases rule: groupby_apply_Inr)
  case 1
  then show ?thesis by simp
next
  case (2 groups)
  with assms(2) show ?thesis by (simp add: set_add_col)
qed

lemma detect_outlier_cols:
  "detect_outlier ext df method = Inr d \<Longrightarrow> c \<noteq> ''outlier'' \<Longrightarrow>
     c \<in> set (cols d) \<longleftrightarrow> c \<in> set (cols df)"
  by (simp add: detect_outlier_def groupby_apply_cols split: if_splits)

subsection \<open>What each step does to the rows\<close>

lemma create_comp_flag:
  "create_comp df = Inr d \<Longrightarrow> r \<in> set (rows d) \<Longrightarrow> comp r = ''Y'' \<or> comp r = ''N''"
  by (auto simp: create_comp_def yn_def split: list.splits if_splits)

lemma create_common_creation_yearweek_keeps:
  assumes "create_common_creation_yearweek df = Inr d" and "r' \<in> set (rows d)"
  shows "\<exists>r \<in> set (rows df). \<exists>a b. r' = r\<lparr>common_creation_yearweek := a,
                                          common_planned_delivery_yearweek := b\<rparr>"
proof (cases "''common_creation_yearweek'' \<in> set (cols df)")
  case True
  with assms(1) have "d = df" by (simp add: create_common_creation_yearweek_def)
  with assms(2) have "r' \<in> set (rows df)" by simp
  moreover have "r' = r'\<lparr>common_creation_yearweek := common_creation_yearweek r',
                         common_planned_delivery_yearweek := common_planned_delivery_yearweek r'\<rparr>"
    by simp
  ultimately show ?thesis by blast
next
  case False
  from create_common_creation_yearweek_Inr [OF assms(1) False]
  obtain max_year years where
    "d = \<lparr>cols = drop_cols [''year_release'', ''max_year'', ''diff'']
                   (add_col ''common_planned_delivery_yearweek''
                     (add_col ''common_creation_yearweek''
                       (add_col ''diff'' (add_col ''max_year''
                         (add_col ''year_release'' (cols df)))))),
          rows = map (\<lambda>(r, yr).
                        let diff = max_year - yr
                        in r\<lparr>common_creation_yearweek := creation_yearweek r + diff * 100,
                             common_planned_delivery_yearweek :=
                               planned_delivery_yearweek r + diff * 100\<rparr>)
                      (zip (rows df) years)\<rparr>" .
  with assms(2) show ?thesis
    by (auto simp: Let_def dest: set_zip_leftD)
qed

lemma create_till_today_keeps:
  assumes "create_till_today today df = Inr d" and "r' \<in> set (rows d)"
  shows "\<exists>r \<in> set (rows df). comp r' = comp r"
proof -
  from create_till_today_Inr [OF assms(1)] obtain d1 where
    1: "create_common_creation_yearweek df = Inr d1"
    and 2: "d = \<lparr>cols = add_col ''till_today'' (cols d1),
               rows = map (\<lambda>r. r\<lparr>till_today := yn (common_creation_yearweek r \<le> today)\<rparr>)
                          (rows d1)\<rparr>" .
  from assms(2) 2 obtain r1 where r1: "r1 \<in> set (rows d1)" and "comp r' = comp r1"
    by auto
  moreover from create_common_creation_yearweek_keeps [OF 1 r1]
  obtain r where "r \<in> set (rows df)" and "comp r1 = comp r" by auto
  ultimately show ?thesis by auto
qed

lemma groupby_apply_keeps:
  assumes "groupby_apply f df = Inr d" and "r' \<in> set (rows d)"
  shows "\<exists>r \<in> set (rows df). \<exists>b. r' = r\<lparr>outlier := b\<rparr>"
  using assms(1)
proof (cases rule: groupby_apply_Inr)
  case 1
  with assms(2) show ?thesis by simp
next
  case (2 groups)
  let ?h = "\<lambda>g. let grp = filter (\<lambda>r. outlier_key r = g) (rows df)
                in (case f (map qty grp) of
                      Inl e \<Rightarrow> Inl e
                    | Inr flags \<Rightarrow>
                        if length flags = length grp
                        then Inr (map2 (\<lambda>r b. r\<lparr>outlier := b\<rparr>) grp flags)
                        else Inl (ValueError ''Length of values does not match length of index''))"
  let ?gs = "remdups (map outlier_key (rows df))"
  from 2(2) have m: "map ?h ?gs = map Inr groups"
    by (rule sequence_Inr_D)
  from assms(2) 2(3) obtain grp where g: "grp \<in> set groups" and r: "r' \<in> set grp"
    by auto
  from g have "Inr grp \<in> set (map Inr groups)" by simp
  with m have "Inr grp \<in> set (map ?h ?gs)" by simp
  then have "Inr grp \<in> ?h ` set ?gs" by (simp only: set_map)
  then obtain k where "Inr grp = ?h k" by (rule imageE)
  then have k: "?h k = Inr grp" by (rule sym)
  define members where "members = filter (\<lambda>r. outlier_key r = k) (rows df)"
  from k have "(case f (map qty members) of
                      Inl e \<Rightarrow> Inl e
                    | Inr flags \<Rightarrow>
                        if length flags = length members
                        then Inr (map2 (\<lambda>r b. r\<lparr>outlier := b\<rparr>) members flags)
                        else Inl (ValueError ''Length of values does not match length of index''))
      = Inr grp"
    unfolding Let_def members_def .
  then obtain flags where "grp = map2 (\<lambda>r b. r\<lparr>outlier := b\<rparr>) members flags"
    by (cases "f (map qty members)") (auto split: if_splits)
  with r obtain r0 b where "(r0, b) \<in> set (zip members flags)" and "r' = r0\<lparr>outlier := b\<rparr>"
    by auto
  moreover then have "r0 \<in> set (rows df)"
    by (auto simp: members_def dest: set_zip_leftD)
  ultimately show ?thesis by blast
qed

lemma detect_outlier_keeps:
  "detect_outlier ext df method = Inr d \<Longrightarrow> r' \<in> set (rows d) \<Longrightarrow>
     \<exists>r \<in> set (rows df). \<exists>b. r' = r\<lparr>outlier := b\<rparr>"
  by (simp add: detect_outlier_def groupby_apply_keeps split: if_splits)

subsection \<open>The flags of \<open>create_comp_today\<close>\<close>

lemma create_comp_today_Inr:
  assumes "create_comp_today today df w = Inr d"
  obtains df1 df2 df3 where
    "(if ''new_acquisition_mode'' \<notin> set (cols df) \<or> w \<noteq> None
      then label_first_order df w else Inr df) = Inr df1"
    and "unless_col ''comp'' create_comp df1 = Inr df2"
    and "unless_col ''till_today'' (create_till_today today) df2 = Inr df3"
    and "d = \<lparr>cols = drop_cols [''group_id'', ''comp_today_pre'']
                     (add_col ''comp_today'' (add_col ''comp_today_pre''
                       (add_col ''group_id'' (cols df3)))),
               rows = map (\<lambda>r.
                          let comp_today_pre =
                                yn (group_id_today r
                                      \<in> set (groups_in_both_releases group_id_today (rows df3)))
                          in r\<lparr>comp_today :=
                                 (if till_today r = ''Y'' \<and> comp r = ''Y'' \<and> comp_today_pre = ''Y''
                                  then ''Y'' else ''N'')\<rparr>)
                        (rows df3)\<rparr>"
proof -
  from assms obtain df1 df2 df3 where
    1: "(if ''new_acquisition_mode'' \<notin> set (cols df) \<or> w \<noteq> None
      then label_first_order df w else Inr df) = Inr df1"
    and 2: "unless_col ''comp'' create_comp df1 = Inr df2"
    and 3: "unless_col ''till_today'' (create_till_today today) df2 = Inr df3"
    and 4: "(case missing [''brand'', ''customer'', ''dedalo_area'', ''new_acquisition_mode'',
                      ''till_today'', ''comp'', ''release''] df3 of
          c # _ \<Rightarrow> Inl (KeyError c)
        | [] \<Rightarrow>
            Inr \<lparr>cols = drop_cols [''group_id'', ''comp_today_pre'']
                     (add_col ''comp_today'' (add_col ''comp_today_pre''
                       (add_col ''group_id'' (cols df3)))),
                 rows = map (\<lambda>r.
                          let comp_today_pre =
                                yn (group_id_today r
                                      \<in> set (groups_in_both_releases group_id_today (rows df3)))
                          in r\<lparr>comp_today :=
                                 (if till_today r = ''Y'' \<and> comp r = ''Y'' \<and> comp_today_pre = ''Y''
                                  then ''Y'' else ''N'')\<rparr>)
                        (rows df3)\<rparr>) = Inr d"
    unfolding create_comp_today_def and_then_Inr_iff by blast
  from 4 have "d = \<lparr>cols = drop_cols [''group_id'', ''comp_today_pre'']
                     (add_col ''comp_today'' (add_col ''comp_today_pre''
                       (add_col ''group_id'' (cols df3)))),
               rows = map (\<lambda>r.
                          let comp_today_pre =
                                yn (group_id_today r
                                      \<in> set (groups_in_both_releases group_id_today (rows df3)))
                          in r\<lparr>comp_today :=
                                 (if till_today r = ''Y'' \<and> comp r = ''Y'' \<and> comp_today_pre = ''Y''
                                  then ''Y'' else ''N'')\<rparr>)
                        (rows df3)\<rparr>"
    by (simp split: list.splits)
  with 1 2 3 that show ?thesis by blast
qed

lemma create_comp_today_flags:
  assumes "create_comp_today today df w = Inr d" and "''comp'' \<notin> set (cols df)"
  shows "''comp'' \<in> set (cols d) \<and> ''comp_today'' \<in> set (cols d) \<and>
         (''comp_no_out'' \<in> set (cols d) \<longleftrightarrow> ''comp_no_out'' \<in> set (cols df)) \<and>
         (\<forall>r \<in> set (rows d).
            (comp r = ''Y'' \<or> comp r = ''N'') \<and>
            (comp_today r = ''Y'' \<or> comp_today r = ''N'') \<and>
            (comp_today r = ''Y'' \<longrightarrow> comp r = ''Y'' \<and> till_today r = ''Y''))"
  using assms(1)
proof (cases rule: create_comp_today_Inr)
  case (1 df1 df2 df3)
  have c1: "''comp'' \<notin> set (cols df1)"
    and n1: "''comp_no_out'' \<in> set (cols df1) \<longleftrightarrow> ''comp_no_out'' \<in> set (cols df)"
    using 1(1) assms(2) by (auto split: if_splits simp: label_first_order_cols)
  with 1(2) have cc: "create_comp df1 = Inr df2"
    by (simp add: unless_col_Inr_iff)
  have c2: "''comp'' \<in> set (cols df2)"
    and n2: "''comp_no_out'' \<in> set (cols df2) \<longleftrightarrow> ''comp_no_out'' \<in> set (cols df1)"
    using create_comp_cols [OF cc] by simp_all
  have r2: "\<forall>r \<in> set (rows df2). comp r = ''Y'' \<or> comp r = ''N''"
    using create_comp_flag [OF cc] by blast
  have c3: "''comp'' \<in> set (cols df3)"
    and n3: "''comp_no_out'' \<in> set (cols df3) \<longleftrightarrow> ''comp_no_out'' \<in> set (cols df2)"
    and r3: "\<forall>r \<in> set (rows df3). comp r = ''Y'' \<or> comp r = ''N''"
  proof -
    show "''comp'' \<in> set (cols df3)"
      using 1(3) c2 by (auto simp: unless_col_Inr_iff create_till_today_cols split: if_splits)
    show "''comp_no_out'' \<in> set (cols df3) \<longleftrightarrow> ''comp_no_out'' \<in> set (cols df2)"
      using 1(3) by (auto simp: unless_col_Inr_iff create_till_today_cols split: if_splits)
    show "\<forall>r \<in> set (rows df3). comp r = ''Y'' \<or> comp r = ''N''"
    proof (cases "''till_today'' \<in> set (cols df2)")
      case True
      with 1(3) r2 show ?thesis by (simp add: unless_col_Inr_iff)
    next
      case False
      with 1(3) have "create_till_today today df2 = Inr df3"
        by (simp add: unless_col_Inr_iff)
      from create_till_today_keeps [OF this] r2 show ?thesis by metis
    qed
  qed
  have "''comp'' \<in> set (cols d)" "''comp_today'' \<in> set (cols d)"
    "''comp_no_out'' \<in> set (cols d) \<longleftrightarrow> ''comp_no_out'' \<in> set (cols df3)"
    using c3 by (simp_all add: 1(4) set_add_col set_drop_cols)
  moreover have "\<forall>r \<in> set (rows d).
            (comp r = ''Y'' \<or> comp r = ''N'') \<and>
            (comp_today r = ''Y'' \<or> comp_today r = ''N'') \<and>
            (comp_today r = ''Y'' \<longrightarrow> comp r = ''Y'' \<and> till_today r = ''Y'')"
    using r3 by (auto simp: 1(4) Let_def)
  ultimately show ?thesis using n1 n2 n3 by simp
qed

subsection \<open>The flags without outliers\<close>

lemma create_comp_no_outliers_Inr:
  assumes "create_comp_no_outliers ext df method = Inr d" and "''comp'' \<in> set (cols df)"
  obtains df2 where
    "unless_col ''outlier'' (\<lambda>x. detect_outlier ext x method) df = Inr df2"
    and "d = \<lparr>cols = add_col ''comp_no_out'' (cols df2),
               rows = map (\<lambda>r. r\<lparr>comp_no_out :=
                               (if outlier r = False \<and> comp r = ''Y'' then ''Y'' else ''N'')\<rparr>)
                          (rows df2)\<rparr>"
proof -
  from assms obtain df2 where
    1: "unless_col ''outlier'' (\<lambda>x. detect_outlier ext x method) df = Inr df2"
    and 2: "(case missing [''outlier'', ''comp''] df2 of
          c # _ \<Rightarrow> Inl (KeyError c)
        | [] \<Rightarrow>
            Inr \<lparr>cols = add_col ''comp_no_out'' (cols df2),
                 rows = map (\<lambda>r. r\<lparr>comp_no_out :=
                               (if outlier r = False \<and> comp r = ''Y'' then ''Y'' else ''N'')\<rparr>)
                            (rows df2)\<rparr>) = Inr d"
    unfolding create_comp_no_outliers_def and_then_Inr_iff unless_col_Inr_iff [of "''comp''"]
    by auto
  from 2 have "d = \<lparr>cols = add_col ''comp_no_out'' (cols df2),
               rows = map (\<lambda>r. r\<lparr>comp_no_out :=
                               (if outlier r = False \<and> comp r = ''Y'' then ''Y'' else ''N'')\<rparr>)
                          (rows df2)\<rparr>"
    by (simp split: list.splits)
  with 1 that show ?thesis by blast
qed

lemma unless_outlier_keeps:
  assumes "unless_col ''outlier'' (\<lambda>x. detect_outlier ext x method) df = Inr d"
  shows "(\<forall>r' \<in> set (rows d). \<exists>r \<in> set (rows df). \<exists>b. r' = r\<lparr>outlier := b\<rparr>) \<and>
         (\<forall>c. c \<noteq> ''outlier'' \<longrightarrow> (c \<in> set (cols d) \<longleftrightarrow> c \<in> set (cols df)))"
proof (cases "''outlier'' \<in> set (cols df)")
  case True
  with assms have "d = df" by (simp add: unless_col_Inr_iff)
  moreover have "\<And>r. r = r\<lparr>outlier := outlier r\<rparr>" by simp
  ultimately show ?thesis by blast
next
  case False
  with assms have "detect_outlier ext df method = Inr d" by (simp add: unless_col_Inr_iff)
  then show ?thesis
    using detect_outlier_keeps detect_outlier_cols by blast
qed

text \<open>
  Claim C2. On a table that does not bring comp, comp\_today or comp\_no\_out columns of
  its own, whenever \<open>create_comp_today_no_outliers\<close> returns a table, the table has the
  four flag columns and in every row each flag is Y or N, comp\_today = Y implies comp = Y
  and till\_today = Y, and comp\_today\_no\_out = Y implies that the row is no outlier and
  comp\_today = Y.
\<close>

theorem shaping_flags_invariant:
  "''comp'' \<notin> set (cols df) \<and> ''comp_today'' \<notin> set (cols df) \<and>
   ''comp_no_out'' \<notin> set (cols df) \<and>
   create_comp_today_no_outliers today ext df method = Inr df' \<longrightarrow>
     set [''comp'', ''comp_today'', ''comp_no_out'', ''comp_today_no_out''] \<subseteq> set (cols df') \<and>
     (\<forall>r \<in> set (rows df').
        (comp r = ''Y'' \<or> comp r = ''N'') \<and>
        (comp_today r = ''Y'' \<or> comp_today r = ''N'') \<and>
        (comp_no_out r = ''Y'' \<or> comp_no_out r = ''N'') \<and>
        (comp_today_no_out r = ''Y'' \<or> comp_today_no_out r = ''N'') \<and>
        (comp_today r = ''Y'' \<longrightarrow> comp r = ''Y'' \<and> till_today r = ''Y'') \<and>
        (comp_today_no_out r = ''Y'' \<longrightarrow> outlier r = False \<and> comp_today r = ''Y''))"
proof
  assume a: "''comp'' \<notin> set (cols df) \<and> ''comp_today'' \<notin> set (cols df) \<and>
   ''comp_no_out'' \<notin> set (cols df) \<and>
   create_comp_today_no_outliers today ext df method = Inr df'"
  let ?I = "\<lambda>r. (comp r = ''Y'' \<or> comp r = ''N'') \<and>
            (comp_today r = ''Y'' \<or> comp_today r = ''N'') \<and>
            (comp_today r = ''Y'' \<longrightarrow> comp r = ''Y'' \<and> till_today r = ''Y'')"
  from a obtain df1 df2 df3 where
    1: "create_comp_today today df None = Inr df1"
    and 2: "unless_col ''outlier'' (\<lambda>d. detect_outlier ext d method) df1 = Inr df2"
    and 3: "unless_col ''comp_no_out'' (\<lambda>d. create_comp_no_outliers ext d ''iqr'') df2 = Inr df3"
    and 4: "(case missing [''brand'', ''customer'', ''dedalo_area'', ''new_acquisition_mode'',
                      ''outlier'', ''comp_today'', ''release''] df3 of
          c # _ \<Rightarrow> Inl (KeyError c)
        | [] \<Rightarrow>
            Inr \<lparr>cols = drop_cols [''group_id'', ''comp_today_no_out_pre'']
                     (add_col ''comp_today_no_out'' (add_col ''comp_today_no_out_pre''
                       (add_col ''group_id'' (cols df3)))),
                 rows = map (\<lambda>r.
                          let comp_today_no_out_pre =
                                yn (group_id_no_out r
                                      \<in> set (groups_in_both_releases group_id_no_out (rows df3)))
                          in r\<lparr>comp_today_no_out :=
                                 (if outlier r = False \<and> comp_today r = ''Y''
                                     \<and> comp_today_no_out_pre = ''Y''
                                  then ''Y'' else ''N'')\<rparr>)
                        (rows df3)\<rparr>) = Inr df'"
    unfolding create_comp_today_no_outliers_def and_then_Inr_iff
      unless_col_Inr_iff [of "''comp_today''"]
    by auto
  from a create_comp_today_flags [OF 1]
  have c1: "''comp'' \<in> set (cols df1)" "''comp_today'' \<in> set (cols df1)"
    "''comp_no_out'' \<notin> set (cols df1)"
    and r1: "\<forall>r \<in> set (rows df1). ?I r"
    by simp_all
  from unless_outlier_keeps [OF 2]
  have k2: "\<forall>r' \<in> set (rows df2). \<exists>r \<in> set (rows df1). \<exists>b. r' = r\<lparr>outlier := b\<rparr>"
    and c2: "''comp'' \<in> set (cols df2)" "''comp_today'' \<in> set (cols df2)"
    "''comp_no_out'' \<notin> set (cols df2)"
    using c1 by simp_all
  have r2: "\<forall>r \<in> set (rows df2). ?I r"
  proof
    fix r' assume "r' \<in> set (rows df2)"
    with k2 obtain r b where "r \<in> set (rows df1)" and "r' = r\<lparr>outlier := b\<rparr>" by blast
    with r1 show "?I r'" by simp
  qed
  from 3 c2 have "create_comp_no_outliers ext df2 ''iqr'' = Inr df3"
    by (simp add: unless_col_Inr_iff)
  from this c2(1) obtain df2' where
    5: "unless_col ''outlier'' (\<lambda>x. detect_outlier ext x ''iqr'') df2 = Inr df2'"
    and 6: "df3 = \<lparr>cols = add_col ''comp_no_out'' (cols df2'),
               rows = map (\<lambda>r. r\<lparr>comp_no_out :=
                               (if outlier r = False \<and> comp r = ''Y'' then ''Y'' else ''N'')\<rparr>)
                          (rows df2')\<rparr>"
    by (rule create_comp_no_outliers_Inr)
  from unless_outlier_keeps [OF 5]
  have k2': "\<forall>r' \<in> set (rows df2'). \<exists>r \<in> set (rows df2). \<exists>b. r' = r\<lparr>outlier := b\<rparr>"
    and c2': "''comp'' \<in> set (cols df2')" "''comp_today'' \<in> set (cols df2')"
    using c2 by simp_all
  have r2': "\<forall>r \<in> set (rows df2'). ?I r"
  proof
    fix r' assume "r' \<in> set (rows df2')"
    with k2' obtain r b where "r \<in> set (rows df2)" and "r' = r\<lparr>outlier := b\<rparr>" by blast
    with r2 show "?I r'" by simp
  qed
  have c3: "set [''comp'', ''comp_today'', ''comp_no_out''] \<subseteq> set (cols df3)"
    using c2' by (simp add: 6 set_add_col)
  have r3: "\<forall>r \<in> set (rows df3). ?I r \<and> (comp_no_out r = ''Y'' \<or> comp_no_out r = ''N'')"
    using r2' by (auto simp: 6)
  from 4 have 7: "df' = \<lparr>cols = drop_cols [''group_id'', ''comp_today_no_out_pre'']
                     (add_col ''comp_today_no_out'' (add_col ''comp_today_no_out_pre''
                       (add_col ''group_id'' (cols df3)))),
                 rows = map (\<lambda>r.
                          let comp_today_no_out_pre =
                                yn (group_id_no_out r
                                      \<in> set (groups_in_both_releases group_id_no_out (rows df3)))
                          in r\<lparr>comp_today_no_out :=
                                 (if outlier r = False \<and> comp_today r = ''Y''
                                     \<and> comp_today_no_out_pre = ''Y''
                                  then ''Y'' else ''N'')\<rparr>)
                        (rows df3)\<rparr>"
    by (simp split: list.splits)
  have "set [''comp'', ''comp_today'', ''comp_no_out'', ''comp_today_no_out''] \<subseteq> set (cols df')"
    using c3 by (simp add: 7 set_add_col set_drop_cols)
  moreover have "\<forall>r \<in> set (rows df').
        (comp r = ''Y'' \<or> comp r = ''N'') \<and>
        (comp_today r = ''Y'' \<or> comp_today r = ''N'') \<and>
        (comp_no_out r = ''Y'' \<or> comp_no_out r = ''N'') \<and>
        (comp_today_no_out r = ''Y'' \<or> comp_today_no_out r = ''N'') \<and>
        (comp_today r = ''Y'' \<longrightarrow> comp r = ''Y'' \<and> till_today r = ''Y'') \<and>
        (comp_today_no_out r = ''Y'' \<longrightarrow> outlier r = False \<and> comp_today r = ''Y'')"
    using r3 by (auto simp: 7 Let_def)
  ultimately show "set [''comp'', ''comp_today'', ''comp_no_out'', ''comp_today_no_out'']
        \<subseteq> set (cols df') \<and>
     (\<forall>r \<in> set (rows df').
        (comp r = ''Y'' \<or> comp r = ''N'') \<and>
        (comp_today r = ''Y'' \<or> comp_today r = ''N'') \<and>
        (comp_no_out r = ''Y'' \<or> comp_no_out r = ''N'') \<and>
        (comp_today_no_out r = ''Y'' \<or> comp_today_no_out r = ''N'') \<and>
        (comp_today r = ''Y'' \<longrightarrow> comp r = ''Y'' \<and> till_today r = ''Y'') \<and>
        (comp_today_no_out r = ''Y'' \<longrightarrow> outlier r = False \<and> comp_today r = ''Y''))"
    by (rule conjI)
qed

subsection \<open>The flags on an example\<close>

lemma flags_example_labelled:
  "label_first_order flags_example None =
     Inr \<lparr>cols = labelled_cols,
          rows = [(order_row ''2023A'' ''B1'' ''C1'' ''A1'' ''REP'' 202310 5)
                    \<lparr>new_acquisition_mode := ''REP REPLENISHMENT''\<rparr>,
                  (order_row ''2024A'' ''B1'' ''C1'' ''A1'' ''REP'' 202410 7)
                    \<lparr>new_acquisition_mode := ''REP REPLENISHMENT''\<rparr>]\<rparr>"
proof -
  have d: "map (\<lambda>r. to_datetime (creation_yearweek r)) (rows flags_example)
      = [Inr 738591, Inr 738955]"
    by (simp add: flags_example_def order_row_def date_defs Let_def)
  have m: "missing [''creation_yearweek''] flags_example = []"
     "missing [''release'', ''brand'', ''customer'', ''dedalo_area'',
                    ''acquisition_mode_group''] flags_example = []"
    by (simp_all add: missing_def flags_example_def grouped_cols_def)
  show ?thesis
    unfolding label_first_order_def m d
    by (simp add: flags_example_def order_row_def first_order_key_def week_diff_lt_def
        select_acquisition_mode_def Let_def labelled_cols_def grouped_cols_def add_col_def
        drop_cols_def blank_row_def)
qed


lemma flags_example_today:
  "create_comp_today 202420 flags_example None =
     Inr \<lparr>cols = labelled_cols @ [''comp'', ''common_creation_yearweek'',
                   ''common_planned_delivery_yearweek'', ''till_today'', ''comp_today''],
          rows = map (\<lambda>r. r\<lparr>comp := ''Y'', common_creation_yearweek := 202410,
                     common_planned_delivery_yearweek := 202410, till_today := ''Y'',
                     comp_today := ''Y''\<rparr>) flags_labelled\<rparr>"
proof -
  define T1 where "T1 = \<lparr>cols = labelled_cols, rows = flags_labelled\<rparr>"
  define T2 where "T2 = \<lparr>cols = labelled_cols @ [''comp''],
    rows = map (\<lambda>r. r\<lparr>comp := ''Y''\<rparr>) flags_labelled\<rparr>"
  define T3 where "T3 = \<lparr>cols = labelled_cols @ [''comp'', ''common_creation_yearweek'',
                   ''common_planned_delivery_yearweek'', ''till_today''],
          rows = map (\<lambda>r. r\<lparr>comp := ''Y'', common_creation_yearweek := 202410,
                     common_planned_delivery_yearweek := 202410, till_today := ''Y''\<rparr>) flags_labelled\<rparr>"
  have y: "py_int ''2023'' = Inr 2023" "py_int ''2024'' = Inr 2024"
    by (simp_all add: py_int_def strip_def is_space_def is_digit_def dec_val_def digit_val_def)
  have m: "max ''2024'' ''2023'' = ''2024''"
    by (simp add: max_def)
  have c0: "''new_acquisition_mode'' \<notin> set (cols flags_example)"
    by (simp add: flags_example_def grouped_cols_def)
  have l1: "label_first_order flags_example None = Inr T1"
    by (simp add: flags_example_labelled T1_def flags_labelled_def)
  have n1: "''comp'' \<notin> set (cols T1)"
    by (simp add: T1_def labelled_cols_def grouped_cols_def)
  have l2: "create_comp T1 = Inr T2"
    by (simp add: T1_def T2_def create_comp_def flags_labelled_def example_defs add_col_def
        drop_cols_def)
  have n2: "''till_today'' \<notin> set (cols T2)"
    by (simp add: T2_def labelled_cols_def grouped_cols_def)
  have l3: "create_till_today 202420 T2 = Inr T3"
    by (simp add: T2_def T3_def create_till_today_def create_common_creation_yearweek_def
        flags_labelled_def example_defs add_col_def drop_cols_def year_release_def m y)
  have l4: "(case missing [''brand'', ''customer'', ''dedalo_area'', ''new_acquisition_mode'',
                      ''till_today'', ''comp'', ''release''] T3 of
          c # _ \<Rightarrow> Inl (KeyError c)
        | [] \<Rightarrow>
            Inr \<lparr>cols = drop_cols [''group_id'', ''comp_today_pre'']
                     (add_col ''comp_today'' (add_col ''comp_today_pre''
                       (add_col ''group_id'' (cols T3)))),
                 rows = map (\<lambda>r.
                          let comp_today_pre =
                                yn (group_id_today r
                                      \<in> set (groups_in_both_releases group_id_today (rows T3)))
                          in r\<lparr>comp_today :=
                                 (if till_today r = ''Y'' \<and> comp r = ''Y'' \<and> comp_today_pre = ''Y''
                                  then ''Y'' else ''N'')\<rparr>)
                        (rows T3)\<rparr>)
      = Inr \<lparr>cols = labelled_cols @ [''comp'', ''common_creation_yearweek'',
                   ''common_planned_delivery_yearweek'', ''till_today'', ''comp_today''],
          rows = map (\<lambda>r. r\<lparr>comp := ''Y'', common_creation_yearweek := 202410,
                     common_planned_delivery_yearweek := 202410, till_today := ''Y'',
                     comp_today := ''Y''\<rparr>) flags_labelled\<rparr>"
    by (simp add: T3_def flags_labelled_def example_defs add_col_def drop_cols_def
        group_id_today_def Let_def)
  show ?thesis
    unfolding create_comp_today_def
    by (simp only: c0 l1 n1 l2 n2 l3 l4 and_then_def unless_col_def simp_thms if_True if_False
        sum.case)
qed


lemma flags_example_quartiles: "detect_outliers_iqr [5, 7] = [False, False]"
proof -
  have q: "quantile [5, 7] (1 / 4) = 11 / 2 \<and> quantile [5, 7] (3 / 4) = 13 / 2"
    by code_simp
  show ?thesis
    by (simp add: detect_outliers_iqr_def q Let_def)
qed

lemma flags_example_shaped:
  "create_comp_today_no_outliers 202420 ext flags_example ''iqr'' =
     Inr \<lparr>cols = labelled_cols @ [''comp'', ''common_creation_yearweek'',
                   ''common_planned_delivery_yearweek'', ''till_today'', ''comp_today'',
                   ''outlier'', ''comp_no_out'', ''comp_today_no_out''],
          rows = map (\<lambda>r. r\<lparr>comp := ''Y'', common_creation_yearweek := 202410,
                     common_planned_delivery_yearweek := 202410, till_today := ''Y'',
                     comp_today := ''Y'', outlier := False, comp_no_out := ''Y'',
                     comp_today_no_out := ''Y''\<rparr>) flags_labelled\<rparr>"
proof -
  define T4 where "T4 = \<lparr>cols = labelled_cols @ [''comp'', ''common_creation_yearweek'',
                   ''common_planned_delivery_yearweek'', ''till_today'', ''comp_today''],
          rows = map (\<lambda>r. r\<lparr>comp := ''Y'', common_creation_yearweek := 202410,
                     common_planned_delivery_yearweek := 202410, till_today := ''Y'',
                     comp_today := ''Y''\<rparr>) flags_labelled\<rparr>"
  define T5 where "T5 = \<lparr>cols = labelled_cols @ [''comp'', ''common_creation_yearweek'',
                   ''common_planned_delivery_yearweek'', ''till_today'', ''comp_today'',
                   ''outlier''],
          rows = map (\<lambda>r. r\<lparr>comp := ''Y'', common_creation_yearweek := 202410,
                     common_planned_delivery_yearweek := 202410, till_today := ''Y'',
                     comp_today := ''Y'', outlier := False\<rparr>) flags_labelled\<rparr>"
  define T6 where "T6 = \<lparr>cols = labelled_cols @ [''comp'', ''common_creation_yearweek'',
                   ''common_planned_delivery_yearweek'', ''till_today'', ''comp_today'',
                   ''outlier'', ''comp_no_out''],
          rows = map (\<lambda>r. r\<lparr>comp := ''Y'', common_creation_yearweek := 202410,
                     common_planned_delivery_yearweek := 202410, till_today := ''Y'',
                     comp_today := ''Y'', outlier := False, comp_no_out := ''Y''\<rparr>) flags_labelled\<rparr>"
  have c0: "''comp_today'' \<notin> set (cols flags_example)"
    by (simp add: flags_example_def grouped_cols_def)
  have l1: "create_comp_today 202420 flags_example None = Inr T4"
    by (simp only: flags_example_today T4_def)
  have n4: "''outlier'' \<notin> set (cols T4)" "''comp_no_out'' \<notin> set (cols T4)"
    by (simp_all add: T4_def labelled_cols_def grouped_cols_def)
  have g: "groupby_apply (\<lambda>qs. Inr (detect_outliers_iqr qs)) T4 = Inr T5"
  proof -
    have m: "missing [''brand'', ''dedalo_area'', ''new_acquisition_mode''] T4 = []"
      "missing [''qty''] T4 = []"
      by (simp_all add: T4_def missing_def labelled_cols_def grouped_cols_def)
    have k: "remdups (map outlier_key (rows T4)) = [(''B1'', ''A1'', ''REP REPLENISHMENT'')]"
      by (simp add: T4_def flags_labelled_def outlier_key_def order_row_def)
    have f: "filter (\<lambda>r. outlier_key r = (''B1'', ''A1'', ''REP REPLENISHMENT'')) (rows T4) = rows T4"
      by (simp add: T4_def flags_labelled_def outlier_key_def order_row_def)
    have q: "map qty (rows T4) = [5, 7]"
      by (simp add: T4_def flags_labelled_def order_row_def)
    have n: "rows T4 \<noteq> []" "length (rows T4) = 2"
      by (simp_all add: T4_def flags_labelled_def)
    have "groupby_apply (\<lambda>qs. Inr (detect_outliers_iqr qs)) T4 =
        Inr \<lparr>cols = add_col ''outlier'' (cols T4),
             rows = map2 (\<lambda>r b. r\<lparr>outlier := b\<rparr>) (rows T4) [False, False]\<rparr>"
      unfolding groupby_apply_def m k
      by (simp add: n f q flags_example_quartiles)
    then show ?thesis
      by (simp add: T4_def T5_def flags_labelled_def add_col_def labelled_cols_def grouped_cols_def)
  qed
  have "\<forall>r \<in> set (rows T4). \<bar>qty r\<bar> < 2 ^ 40"
    by (simp add: T4_def flags_labelled_def order_row_def)
  then have "detect_outlier ext T4 ''iqr'' = groupby_apply (\<lambda>qs. Inr (detect_outliers_iqr qs)) T4"
    by (rule detect_outlier_iqr_exact)
  with g have l2: "detect_outlier ext T4 ''iqr'' = Inr T5"
    by simp
  have n5: "''comp_no_out'' \<notin> set (cols T5)" "''comp'' \<in> set (cols T5)"
    "''outlier'' \<in> set (cols T5)"
    by (simp_all add: T5_def labelled_cols_def grouped_cols_def)
  have l3: "create_comp_no_outliers ext T5 ''iqr'' = Inr T6"
  proof -
    have "(case missing [''outlier'', ''comp''] T5 of
          c # _ \<Rightarrow> Inl (KeyError c)
        | [] \<Rightarrow>
            Inr \<lparr>cols = add_col ''comp_no_out'' (cols T5),
                 rows = map (\<lambda>r. r\<lparr>comp_no_out :=
                               (if outlier r = False \<and> comp r = ''Y'' then ''Y'' else ''N'')\<rparr>)
                            (rows T5)\<rparr>) = Inr T6"
      by (simp add: T5_def T6_def flags_labelled_def missing_def add_col_def labelled_cols_def
          grouped_cols_def)
    then show ?thesis
      unfolding create_comp_no_outliers_def
      by (simp only: n5 and_then_def unless_col_def simp_thms if_True if_False sum.case)
  qed
  have l4: "(case missing [''brand'', ''customer'', ''dedalo_area'', ''new_acquisition_mode'',
                      ''outlier'', ''comp_today'', ''release''] T6 of
          c # _ \<Rightarrow> Inl (KeyError c)
        | [] \<Rightarrow>
            Inr \<lparr>cols = drop_cols [''group_id'', ''comp_today_no_out_pre'']
                     (add_col ''comp_today_no_out'' (add_col ''comp_today_no_out_pre''
                       (add_col ''group_id'' (cols T6)))),
                 rows = map (\<lambda>r.
                          let comp_today_no_out_pre =
                                yn (group_id_no_out r
                                      \<in> set (groups_in_both_releases group_id_no_out (rows T6)))
                          in r\<lparr>comp_today_no_out :=
                                 (if outlier r = False \<and> comp_today r = ''Y''
                                     \<and> comp_today_no_out_pre = ''Y''
                                  then ''Y'' else ''N'')\<rparr>)
                        (rows T6)\<rparr>)
      = Inr \<lparr>cols = labelled_cols @ [''comp'', ''common_creation_yearweek'',
                   ''common_planned_delivery_yearweek'', ''till_today'', ''comp_today'',
                   ''outlier'', ''comp_no_out'', ''comp_today_no_out''],
          rows = map (\<lambda>r. r\<lparr>comp := ''Y'', common_creation_yearweek := 202410,
                     common_planned_delivery_yearweek := 202410, till_today := ''Y'',
                     comp_today := ''Y'', outlier := False, comp_no_out := ''Y'',
                     comp_today_no_out := ''Y''\<rparr>) flags_labelled\<rparr>"
    by (simp add: T6_def flags_labelled_def example_defs add_col_def drop_cols_def
        group_id_no_out_def bool_str_def Let_def)
  from l4 show ?thesis
    unfolding create_comp_today_no_outliers_def
    by (simp only: c0 l1 n4 l2 n5 l3 and_then_def unless_col_def simp_thms if_True if_False
        sum.case)
qed

theorem shaping_flags_invariant_witness:
  "''comp'' \<notin> set (cols flags_example) \<and> ''comp_today'' \<notin> set (cols flags_example) \<and>
   ''comp_no_out'' \<notin> set (cols flags_example) \<and>
   (\<exists>df'. create_comp_today_no_outliers 202420 (\<lambda>m qs. Inl TypeError) flags_example ''iqr''
            = Inr df' \<and>
      set [''comp'', ''comp_today'', ''comp_no_out'', ''comp_today_no_out''] \<subseteq> set (cols df') \<and>
      map (\<lambda>r. (comp r, comp_today r, comp_no_out r, comp_today_no_out r, till_today r, outlier r))
          (rows df')
        = [(''Y'', ''Y'', ''Y'', ''Y'', ''Y'', False), (''Y'', ''Y'', ''Y'', ''Y'', ''Y'', False)])"
proof -
  let ?ext = "\<lambda>m qs. Inl TypeError :: error + bool list"
  let ?df' = "\<lparr>cols = labelled_cols @ [''comp'', ''common_creation_yearweek'',
                   ''common_planned_delivery_yearweek'', ''till_today'', ''comp_today'',
                   ''outlier'', ''comp_no_out'', ''comp_today_no_out''],
          rows = map (\<lambda>r. r\<lparr>comp := ''Y'', common_creation_yearweek := 202410,
                     common_planned_delivery_yearweek := 202410, till_today := ''Y'',
                     comp_today := ''Y'', outlier := False, comp_no_out := ''Y'',
                     comp_today_no_out := ''Y''\<rparr>) flags_labelled\<rparr>"
  have c: "''comp'' \<notin> set (cols flags_example)" "''comp_today'' \<notin> set (cols flags_example)"
    "''comp_no_out'' \<notin> set (cols flags_example)"
    by (simp_all add: flags_example_def grouped_cols_def)
  have e: "create_comp_today_no_outliers 202420 ?ext flags_example ''iqr'' = Inr ?df'"
    by (rule flags_example_shaped)
  from shaping_flags_invariant [of flags_example 202420 ?ext "''iqr''" ?df'] c e
  have s: "set [''comp'', ''comp_today'', ''comp_no_out'', ''comp_today_no_out'']
      \<subseteq> set (cols ?df')"
    by blast
  have v: "map (\<lambda>r. (comp r, comp_today r, comp_no_out r, comp_today_no_out r, till_today r, outlier r))
          (rows ?df')
        = [(''Y'', ''Y'', ''Y'', ''Y'', ''Y'', False), (''Y'', ''Y'', ''Y'', ''Y'', ''Y'', False)]"
    by (simp add: flags_labelled_def)
  show ?thesis
  proof (intro conjI exI [of _ ?df'])
    show "''comp'' \<notin> set (cols flags_example)" by fact
    show "''comp_today'' \<notin> set (cols flags_example)" by fact
    show "''comp_no_out'' \<notin> set (cols flags_example)" by fact
    show "create_comp_today_no_outliers 202420 ?ext flags_example ''iqr'' = Inr ?df'" by fact
    show "set [''comp'', ''comp_today'', ''comp_no_out'', ''comp_today_no_out'']
      \<subseteq> set (cols ?df')" by fact
    show "map (\<lambda>r. (comp r, comp_today r, comp_no_out r, comp_today_no_out r, till_today r, outlier r))
          (rows ?df')
        = [(''Y'', ''Y'', ''Y'', ''Y'', ''Y'', False), (''Y'', ''Y'', ''Y'', ''Y'', ''Y'', False)]"
      by fact
  qed
qed


end
